theory Spec2Isabelle
  imports Complex_Main "HOL-Library.Word"
begin

section \<open>The Apps Script service layer of the makerspace inventory hub\<close>

text \<open>
  A shallow embedding of the TypeScript module that talks to the Apps Script backend: the
  TTL cache (\<open>getCached\<close>, \<open>setCache\<close>, \<open>invalidateCache\<close>), the request helpers
  (\<open>get\<close>, \<open>cachedGet\<close>, \<open>post\<close>), the two validators and the six exported API
  functions.

  The module-level \<open>Map\<close> and the requests handed to \<open>fetch\<close> are the state; every
  function takes the state and returns it updated. Each reading of \<open>Date.now()\<close> is an
  argument, and so is what the backend answers to the one request a function may issue.
  A call that throws is the \<open>Inl\<close> branch of its result. A call of an \<open>async\<close> function
  returns a promise, and how that promise settles is part of the value returned.
\<close>

subsection \<open>JavaScript values\<close>

text \<open>
  A JavaScript string is a sequence of 16-bit code units; it is falsy exactly when it is
  empty. \<open>utf16\<close> writes an ASCII literal of the source as such a sequence.
\<close>

type_synonym js_string = "16 word list"

definition utf16 :: "string \<Rightarrow> js_string" where
  "utf16 s = map of_char s"

text \<open>
  A \<open>number\<close> is a double: a finite value (every finite double is a rational; \<open>-0\<close> is
  identified with \<open>0\<close>, which no function of the module tells apart), \<open>NaN\<close> or an
  infinity.
\<close>

datatype number = Num rat | NaN | PosInfinity | NegInfinity

text \<open>\<open>Number.isInteger(value)\<close>: finite and without fractional part.\<close>

fun Number_isInteger :: "number \<Rightarrow> bool" where
  "Number_isInteger (Num r) = (of_int \<lfloor>r\<rfloor> = r)"
| "Number_isInteger NaN = False"
| "Number_isInteger PosInfinity = False"
| "Number_isInteger NegInfinity = False"

text \<open>The comparison \<open>a < b\<close> on numbers; every comparison with \<open>NaN\<close> is false.\<close>

fun number_less :: "number \<Rightarrow> number \<Rightarrow> bool" where
  "number_less (Num a) (Num b) = (a < b)"
| "number_less NaN _ = False"
| "number_less _ NaN = False"
| "number_less _ NegInfinity = False"
| "number_less PosInfinity _ = False"
| "number_less NegInfinity _ = True"
| "number_less (Num a) PosInfinity = True"

text \<open>
  The values \<open>res.json()\<close> can produce, which is what the cache holds
  (\<open>CacheEntry<unknown>\<close>) and what a POST body is built from.
\<close>

datatype json =
    JNull
  | JBool bool
  | JNum number
  | JStr js_string
  | JArr "json list"
  | JObj "(js_string \<times> json) list"

text \<open>
  What \<open>if (v)\<close> tests: \<open>null\<close>, \<open>false\<close>, \<open>0\<close>, \<open>NaN\<close> and \<open>""\<close> are falsy, every
  array and every object is truthy.
\<close>

fun truthy :: "json \<Rightarrow> bool" where
  "truthy JNull = False"
| "truthy (JBool b) = b"
| "truthy (JNum (Num r)) = (r \<noteq> 0)"
| "truthy (JNum NaN) = False"
| "truthy (JNum PosInfinity) = True"
| "truthy (JNum NegInfinity) = True"
| "truthy (JStr s) = (s \<noteq> [])"
| "truthy (JArr xs) = True"
| "truthy (JObj kvs) = True"

text \<open>
  \<open>String.prototype.trim\<close> strips the code units of ECMAScript's WhiteSpace and
  LineTerminator productions from both ends.
\<close>

definition is_white_space :: "16 word \<Rightarrow> bool" where
  "is_white_space c \<longleftrightarrow>
     c = 0x0009 \<or> c = 0x000A \<or> c = 0x000B \<or> c = 0x000C \<or> c = 0x000D \<or> c = 0x0020 \<or>
     c = 0x00A0 \<or> c = 0x1680 \<or> (0x2000 \<le> c \<and> c \<le> 0x200A) \<or>
     c = 0x2028 \<or> c = 0x2029 \<or> c = 0x202F \<or> c = 0x205F \<or> c = 0x3000 \<or> c = 0xFEFF"

definition trim :: "js_string \<Rightarrow> js_string" where
  "trim s = rev (dropWhile is_white_space (rev (dropWhile is_white_space s)))"

text \<open>
  \<open>URLSearchParams\<close> takes its names and values as scalar value strings: a surrogate
  code unit that is not part of a pair (a high one followed by a low one) is replaced by
  \<open>U+FFFD\<close>. A string is well formed when it has no such code unit.
\<close>

definition is_high_surrogate :: "16 word \<Rightarrow> bool" where
  "is_high_surrogate c \<longleftrightarrow> 0xD800 \<le> c \<and> c \<le> 0xDBFF"

definition is_low_surrogate :: "16 word \<Rightarrow> bool" where
  "is_low_surrogate c \<longleftrightarrow> 0xDC00 \<le> c \<and> c \<le> 0xDFFF"

fun to_usv :: "js_string \<Rightarrow> js_string" where
  "to_usv [] = []"
| "to_usv [c] = (if is_high_surrogate c \<or> is_low_surrogate c then [0xFFFD] else [c])"
| "to_usv (c # d # cs) =
     (if is_high_surrogate c \<and> is_low_surrogate d then c # d # to_usv cs
      else if is_high_surrogate c \<or> is_low_surrogate c then 0xFFFD # to_usv (d # cs)
      else c # to_usv (d # cs))"

fun well_formed :: "js_string \<Rightarrow> bool" where
  "well_formed [] = True"
| "well_formed [c] = (\<not> is_high_surrogate c \<and> \<not> is_low_surrogate c)"
| "well_formed (c # d # cs) =
     (if is_high_surrogate c then is_low_surrogate d \<and> well_formed cs
      else \<not> is_low_surrogate c \<and> well_formed (d # cs))"

text \<open>
  A template literal renders a number with \<open>Number::toString\<close>. On an integer of
  magnitude at most \<open>2^53\<close> that is its decimal numeral. Everywhere else the digits are
  the shortest ones that round back to the double, which depends on the rounding of
  doubles: that part is the parameter \<open>shortest\<close>.
\<close>

fun decimal :: "nat \<Rightarrow> js_string" where
  "decimal n =
     (if n < 10 then [of_nat (48 + n)]
      else decimal (n div 10) @ [of_nat (48 + n mod 10)])"

declare decimal.simps [simp del]

fun Number_toString :: "(rat \<Rightarrow> js_string) \<Rightarrow> number \<Rightarrow> js_string" where
  "Number_toString shortest (Num r) =
     (if of_int \<lfloor>r\<rfloor> = r \<and> \<bar>r\<bar> \<le> 2 ^ 53
      then (if r < 0 then utf16 ''-'' else []) @ decimal (nat \<bar>\<lfloor>r\<rfloor>\<bar>)
      else shortest r)"
| "Number_toString shortest NaN = utf16 ''NaN''"
| "Number_toString shortest PosInfinity = utf16 ''Infinity''"
| "Number_toString shortest NegInfinity = utf16 ''-Infinity''"

subsection \<open>Cache\<close>

record cache_entry =
  data :: json
  timestamp :: int

type_synonym cache_store = "js_string \<rightharpoonup> cache_entry"

definition CACHE_TTL_MS :: int where
  "CACHE_TTL_MS = 2 * 60 * 1000"

text \<open>
  \<open>getCached\<close> at clock reading \<open>now\<close>. The result is the value returned (\<open>JNull\<close> is
  the \<open>null\<close> of a miss) and the store, from which an expired entry has been deleted.
\<close>

definition getCached :: "int \<Rightarrow> js_string \<Rightarrow> cache_store \<Rightarrow> json \<times> cache_store" where
  "getCached now key c =
     (case c key of
        None \<Rightarrow> (JNull, c)
      | Some entry \<Rightarrow>
          if now - timestamp entry > CACHE_TTL_MS then (JNull, c(key := None))
          else (data entry, c))"

definition setCache :: "int \<Rightarrow> js_string \<Rightarrow> json \<Rightarrow> cache_store \<Rightarrow> cache_store" where
  "setCache now key d c = c(key \<mapsto> \<lparr>data = d, timestamp = now\<rparr>)"

text \<open>
  \<open>invalidateCache(key?)\<close>: the optional argument is \<open>None\<close> when omitted. The guard
  \<open>if (key)\<close> is a truthiness test, so the empty string takes the \<open>else\<close> branch too.
\<close>

definition invalidateCache :: "js_string option \<Rightarrow> cache_store \<Rightarrow> cache_store" where
  "invalidateCache key c =
     (case key of
        Some k \<Rightarrow> if k \<noteq> [] then c(k := None) else Map.empty
      | None \<Rightarrow> Map.empty)"

text \<open>
  A run of cache operations none of which is a \<open>setCache\<close>: lookups at any clock reading
  and invalidations, on any keys.
\<close>

datatype cache_op = Lookup int js_string | Invalidate "js_string option"

fun run_ops :: "cache_op list \<Rightarrow> cache_store \<Rightarrow> cache_store" where
  "run_ops [] c = c"
| "run_ops (Lookup t k # ops) c = run_ops ops (snd (getCached t k c))"
| "run_ops (Invalidate k # ops) c = run_ops ops (invalidateCache k c)"

subsection \<open>Request helpers\<close>

text \<open>
  The state of the module: the cache and, in order, the requests handed to \<open>fetch\<close>.
  A GET is recorded with the query pairs set on the URL, a POST with the object that is
  serialised into its body.
\<close>

datatype request =
    GET "(js_string \<times> js_string) list"
  | POST "(js_string \<times> json) list"

record world =
  cache :: cache_store
  requests :: "request list"

text \<open>
  What comes back for a request: \<open>fetch\<close> rejects, the status (an unsigned short) is
  not ok, the body is not JSON, or the body parses to a value.
\<close>

datatype 'a reply =
    NetworkFailure
  | NotOk "16 word" js_string
  | Malformed
  | Body 'a

fun failed :: "'a reply \<Rightarrow> bool" where
  "failed (Body v) = False"
| "failed NetworkFailure = True"
| "failed (NotOk status statusText) = True"
| "failed Malformed = True"

text \<open>
  What is thrown: \<open>Error msg\<close> is the source's \<open>new Error(msg)\<close>, the only error the
  module creates itself; the other two are what \<open>fetch\<close> and \<open>res.json()\<close> reject
  with.
\<close>

datatype error =
    Error js_string
  | FetchRejected
  | JsonRejected

text \<open>
  A settled promise. A call of an \<open>async\<close> function never throws: it returns a promise,
  and a \<open>throw\<close> in the body is the rejection of that promise. \<open>async\<close> turns the outcome
  of a body (\<open>Inl\<close>: the body throws) into the result of the call, \<open>await\<close> turns the
  result of a call back into an outcome inside the body that awaits it. Returning a
  promise from an \<open>async\<close> body settles the outer promise like the inner one, which is
  \<open>async (await \<dots>)\<close>.
\<close>

datatype 'a promise = Rejected error | Fulfilled 'a

definition async :: "(error + 'a) \<times> world \<Rightarrow> (error + 'a promise) \<times> world" where
  "async body =
     (case body of
        (Inl e, w) \<Rightarrow> (Inr (Rejected e), w)
      | (Inr v, w) \<Rightarrow> (Inr (Fulfilled v), w))"

definition await :: "(error + 'a promise) \<times> world \<Rightarrow> (error + 'a) \<times> world" where
  "await call =
     (case call of
        (Inl e, w) \<Rightarrow> (Inl e, w)
      | (Inr (Rejected e), w) \<Rightarrow> (Inl e, w)
      | (Inr (Fulfilled v), w) \<Rightarrow> (Inr v, w))"

text \<open>
  \<open>url.searchParams.set(k, v)\<close>: the first pair named \<open>k\<close> gets the value and the other
  pairs named \<open>k\<close> are removed; without such a pair, the pair is appended. \<open>query_of\<close> is
  the \<open>forEach\<close> over the entries of \<open>params\<close>, each converted to a scalar value string.
  The pairs are recorded as they stand before \<open>url.toString()\<close> percent-encodes them,
  which is one-to-one on scalar value strings.
\<close>

fun searchParams_set ::
  "(js_string \<times> js_string) list \<Rightarrow> js_string \<Rightarrow> js_string \<Rightarrow> (js_string \<times> js_string) list" where
  "searchParams_set [] k v = [(k, v)]"
| "searchParams_set ((k', v') # q) k v =
     (if k' = k then (k, v) # filter (\<lambda>p. fst p \<noteq> k) q
      else (k', v') # searchParams_set q k v)"

definition query_of :: "(js_string \<times> js_string) list \<Rightarrow> (js_string \<times> js_string) list" where
  "query_of params = foldl (\<lambda>q (k, v). searchParams_set q (to_usv k) (to_usv v)) [] params"

text \<open>
  \<open>BASE_URL\<close> is the configured deployment URL, a well-formed absolute URL without a
  query of its own, so that \<open>new URL(BASE_URL)\<close> does not throw.
\<close>

definition get ::
  "(js_string \<times> js_string) list \<Rightarrow> 'a reply \<Rightarrow> world \<Rightarrow> (error + 'a promise) \<times> world" where
  "get params r w =
     async
       (let w' = w\<lparr>requests := requests w @ [GET (query_of params)]\<rparr> in
        case r of
          NetworkFailure \<Rightarrow> (Inl FetchRejected, w')
        | NotOk status statusText \<Rightarrow>
            (Inl (Error (utf16 ''Request failed: '' @ decimal (unat status) @ utf16 '' ''
                         @ statusText)), w')
        | Malformed \<Rightarrow> (Inl JsonRejected, w')
        | Body v \<Rightarrow> (Inr v, w'))"

definition post ::
  "(js_string \<times> json) list \<Rightarrow> 'a reply \<Rightarrow> world \<Rightarrow> (error + 'a promise) \<times> world" where
  "post body r w =
     async
       (let w' = w\<lparr>requests := requests w @ [POST body]\<rparr> in
        case r of
          NetworkFailure \<Rightarrow> (Inl FetchRejected, w')
        | NotOk status statusText \<Rightarrow>
            (Inl (Error (utf16 ''Request failed: '' @ decimal (unat status) @ utf16 '' ''
                         @ statusText)), w')
        | Malformed \<Rightarrow> (Inl JsonRejected, w')
        | Body v \<Rightarrow> (Inr v, w'))"

text \<open>
  \<open>cachedGet\<close>: \<open>t_get\<close> is the clock when \<open>getCached\<close> runs, \<open>t_set\<close> the clock when
  \<open>setCache\<close> runs after the response has arrived. \<open>if (hit)\<close> is a truthiness test.
\<close>

definition cachedGet ::
  "int \<Rightarrow> int \<Rightarrow> json reply \<Rightarrow> js_string \<Rightarrow> (js_string \<times> js_string) list \<Rightarrow> world
     \<Rightarrow> (error + json promise) \<times> world" where
  "cachedGet t_get t_set r cacheKey params w =
     async
       (case getCached t_get cacheKey (cache w) of
          (hit, c) \<Rightarrow>
            if truthy hit then (Inr hit, w\<lparr>cache := c\<rparr>)
            else (case await (get params r (w\<lparr>cache := c\<rparr>)) of
                    (Inl e, w') \<Rightarrow> (Inl e, w')
                  | (Inr d, w') \<Rightarrow>
                      (Inr d, w'\<lparr>cache := setCache t_set cacheKey d (cache w')\<rparr>)))"

subsection \<open>Validation helpers\<close>

text \<open>The two validators are ordinary functions: \<open>Inl\<close> is their \<open>throw\<close>.\<close>

definition validateNotEmpty :: "js_string \<Rightarrow> js_string \<Rightarrow> error + unit" where
  "validateNotEmpty v fieldName =
     (if v = [] \<or> trim v = [] then Inl (Error (fieldName @ utf16 '' is required.''))
      else Inr ())"

definition validatePositiveInt :: "number \<Rightarrow> js_string \<Rightarrow> error + unit" where
  "validatePositiveInt v fieldName =
     (if \<not> Number_isInteger v \<or> number_less v (Num 1)
      then Inl (Error (fieldName @ utf16 '' must be a positive integer.''))
      else Inr ())"

subsection \<open>API functions\<close>

text \<open>All six are \<open>async\<close> functions.\<close>

definition fetchCases ::
  "int \<Rightarrow> int \<Rightarrow> json reply \<Rightarrow> world \<Rightarrow> (error + json promise) \<times> world" where
  "fetchCases t_get t_set r w =
     async (await (cachedGet t_get t_set r (utf16 ''getCases'')
                     [(utf16 ''action'', utf16 ''getCases'')] w))"

definition fetchComponentsByCase ::
  "int \<Rightarrow> int \<Rightarrow> json reply \<Rightarrow> js_string \<Rightarrow> world \<Rightarrow> (error + json promise) \<times> world" where
  "fetchComponentsByCase t_get t_set r caseName w =
     async
       (case validateNotEmpty caseName (utf16 ''Case name'') of
          Inl e \<Rightarrow> (Inl e, w)
        | Inr _ \<Rightarrow>
            await (cachedGet t_get t_set r (utf16 ''getComponents:'' @ caseName)
                     [(utf16 ''action'', utf16 ''getComponents''), (utf16 ''case'', caseName)] w))"

text \<open>The response type of a POST, \<open>{ success?: boolean; error?: string }\<close>.\<close>

record post_data =
  data_success :: "bool option"
  data_error :: "js_string option"

text \<open>The result type of the two transactions, \<open>{ success: boolean; message: string }\<close>.\<close>

record transaction_result =
  success :: bool
  message :: js_string

text \<open>
  In both transactions \<open>if (data.error)\<close> is a truthiness test on an optional string: the
  branch is taken when the field is there and is not the empty string. \<open>done\<close> below
  is the rest of the function body, run when the test fails.
\<close>

definition borrowComponent ::
  "(rat \<Rightarrow> js_string) \<Rightarrow> post_data reply \<Rightarrow> js_string \<Rightarrow> js_string \<Rightarrow> js_string \<Rightarrow> number \<Rightarrow> world
     \<Rightarrow> (error + transaction_result promise) \<times> world" where
  "borrowComponent shortest r userId caseName component quantity w =
     async
     (case validateNotEmpty userId (utf16 ''User ID'') of
        Inl e \<Rightarrow> (Inl e, w)
      | Inr _ \<Rightarrow>
     (case validateNotEmpty caseName (utf16 ''Case name'') of
        Inl e \<Rightarrow> (Inl e, w)
      | Inr _ \<Rightarrow>
     (case validateNotEmpty component (utf16 ''Component'') of
        Inl e \<Rightarrow> (Inl e, w)
      | Inr _ \<Rightarrow>
     (case validatePositiveInt quantity (utf16 ''Quantity'') of
        Inl e \<Rightarrow> (Inl e, w)
      | Inr _ \<Rightarrow>
     (case await (post [(utf16 ''action'', JStr (utf16 ''borrow'')),
                        (utf16 ''userId'', JStr (trim userId)),
                        (utf16 ''caseName'', JStr caseName),
                        (utf16 ''component'', JStr component),
                        (utf16 ''quantity'', JNum quantity)] r w) of
        (Inl e, w') \<Rightarrow> (Inl e, w')
      | (Inr d, w') \<Rightarrow>
          (let done =
             (Inr \<lparr>success = True,
                   message = utf16 ''Successfully borrowed '' @ Number_toString shortest quantity
                             @ utf16 ''x '' @ component @ utf16 ''!''\<rparr>,
              w'\<lparr>cache := invalidateCache (Some (utf16 ''getComponents:'' @ caseName))
                             (invalidateCache (Some (utf16 ''getLiveStock'')) (cache w'))\<rparr>)
           in case data_error d of
                None \<Rightarrow> done
              | Some e \<Rightarrow>
                  if e \<noteq> [] then (Inr \<lparr>success = False, message = e\<rparr>, w') else done))))))"

definition fetchUserHoldings ::
  "json reply \<Rightarrow> js_string \<Rightarrow> world \<Rightarrow> (error + json promise) \<times> world" where
  "fetchUserHoldings r userId w =
     async
       (case validateNotEmpty userId (utf16 ''User ID'') of
          Inl e \<Rightarrow> (Inl e, w)
        | Inr _ \<Rightarrow>
            await (get [(utf16 ''action'', utf16 ''getUserHoldings''),
                        (utf16 ''userId'', trim userId)] r w))"

definition returnComponent ::
  "(rat \<Rightarrow> js_string) \<Rightarrow> post_data reply \<Rightarrow> js_string \<Rightarrow> js_string \<Rightarrow> number \<Rightarrow> world
     \<Rightarrow> (error + transaction_result promise) \<times> world" where
  "returnComponent shortest r userId component quantity w =
     async
     (case validateNotEmpty userId (utf16 ''User ID'') of
        Inl e \<Rightarrow> (Inl e, w)
      | Inr _ \<Rightarrow>
     (case validateNotEmpty component (utf16 ''Component'') of
        Inl e \<Rightarrow> (Inl e, w)
      | Inr _ \<Rightarrow>
     (case validatePositiveInt quantity (utf16 ''Quantity'') of
        Inl e \<Rightarrow> (Inl e, w)
      | Inr _ \<Rightarrow>
     (case await (post [(utf16 ''action'', JStr (utf16 ''return'')),
                        (utf16 ''userId'', JStr (trim userId)),
                        (utf16 ''component'', JStr component),
                        (utf16 ''quantity'', JNum quantity)] r w) of
        (Inl e, w') \<Rightarrow> (Inl e, w')
      | (Inr d, w') \<Rightarrow>
          (let done =
             (Inr \<lparr>success = True,
                   message = utf16 ''Successfully returned '' @ Number_toString shortest quantity
                             @ utf16 ''x '' @ component @ utf16 ''!''\<rparr>,
              w'\<lparr>cache := invalidateCache (Some (utf16 ''getLiveStock'')) (cache w')\<rparr>)
           in case data_error d of
                None \<Rightarrow> done
              | Some e \<Rightarrow>
                  if e \<noteq> [] then (Inr \<lparr>success = False, message = e\<rparr>, w') else done)))))"

definition fetchLiveStock ::
  "int \<Rightarrow> int \<Rightarrow> json reply \<Rightarrow> world \<Rightarrow> (error + json promise) \<times> world" where
  "fetchLiveStock t_get t_set r w =
     async (await (cachedGet t_get t_set r (utf16 ''getLiveStock'')
                     [(utf16 ''action'', utf16 ''getLiveStock'')] w))"

section \<open>Properties\<close>

subsection \<open>Strings\<close>

lemma trim_Nil: "trim [] = []"
  by (simp add: trim_def)

lemma trim_white_space: "\<forall>ch\<in>set s. is_white_space ch \<Longrightarrow> trim s = []"
  by (auto simp: trim_def dropWhile_eq_Nil_conv dest: set_dropWhileD)

lemma last_dropWhile: "dropWhile P xs \<noteq> [] \<Longrightarrow> last (dropWhile P xs) = last xs"
  by (metis last_appendR takeWhile_dropWhile_id)

text \<open>What \<open>trim\<close> removes is white space, at the two ends, and all of it.\<close>

lemma trim_decompose:
  "\<exists>pre suf. s = pre @ trim s @ suf \<and>
     (\<forall>ch\<in>set pre. is_white_space ch) \<and> (\<forall>ch\<in>set suf. is_white_space ch)"
proof -
  let ?a = "takeWhile is_white_space s"
  let ?m = "dropWhile is_white_space s"
  let ?b = "rev (takeWhile is_white_space (rev ?m))"
  have "rev ?m = takeWhile is_white_space (rev ?m) @ dropWhile is_white_space (rev ?m)"
    by simp
  then have "?m = trim s @ ?b"
    by (metis rev_append rev_rev_ident trim_def)
  then have "s = ?a @ trim s @ ?b"
    by (metis takeWhile_dropWhile_id)
  moreover have "\<forall>ch\<in>set ?a. is_white_space ch"
    by (meson set_takeWhileD)
  moreover have "\<forall>ch\<in>set ?b. is_white_space ch"
    by (metis set_rev set_takeWhileD)
  ultimately show ?thesis by blast
qed

lemma trim_ends:
  assumes "trim s \<noteq> []"
  shows "\<not> is_white_space (hd (trim s)) \<and> \<not> is_white_space (last (trim s))"
proof -
  let ?m = "dropWhile is_white_space s"
  let ?d = "dropWhile is_white_space (rev ?m)"
  from assms have d: "?d \<noteq> []" by (simp add: trim_def)
  then have m: "?m \<noteq> []" by (cases "?m") simp_all
  have "last (trim s) = hd ?d"
    by (simp add: trim_def last_rev)
  moreover have "\<not> is_white_space (hd ?d)"
    using d by (rule hd_dropWhile)
  moreover have "hd (trim s) = last ?d"
    by (simp add: trim_def hd_rev)
  moreover have "last ?d = hd ?m"
    using d m by (simp add: last_dropWhile last_rev)
  moreover have "\<not> is_white_space (hd ?m)"
    using m by (rule hd_dropWhile)
  ultimately show ?thesis by simp
qed

text \<open>A well-formed string is its own scalar value string.\<close>

lemma to_usv_well_formed: "well_formed s \<Longrightarrow> to_usv s = s"
  by (induction s rule: to_usv.induct) (auto split: if_splits)

text \<open>Trimming keeps a string well formed: white space is no surrogate.\<close>

lemma white_space_not_surrogate:
  "is_white_space c \<Longrightarrow> \<not> is_high_surrogate c \<and> \<not> is_low_surrogate c"
  unfolding is_white_space_def is_high_surrogate_def is_low_surrogate_def
  by (auto simp: word_le_nat_alt)

lemma well_formed_tl:
  "well_formed (c # s) \<Longrightarrow> \<not> is_high_surrogate c \<Longrightarrow> well_formed s"
  by (cases s) (auto split: if_splits)

lemma well_formed_butlast:
  "well_formed (s @ [c]) \<Longrightarrow> \<not> is_high_surrogate c \<Longrightarrow> \<not> is_low_surrogate c \<Longrightarrow> well_formed s"
  by (induction s rule: well_formed.induct) (auto split: if_splits)

lemma well_formed_dropWhile:
  "well_formed s \<Longrightarrow> well_formed (dropWhile is_white_space s)"
  by (induction s) (auto dest: well_formed_tl white_space_not_surrogate)

lemma well_formed_dropWhile_end:
  "well_formed s \<Longrightarrow> well_formed (rev (dropWhile is_white_space (rev s)))"
proof (induction s rule: rev_induct)
  case Nil
  then show ?case by simp
next
  case (snoc x xs)
  show ?case
  proof (cases "is_white_space x")
    case True
    then have "well_formed xs"
      using snoc.prems white_space_not_surrogate [of x] by (auto dest: well_formed_butlast)
    then show ?thesis
      using True snoc.IH by simp
  next
    case False
    then show ?thesis
      using snoc.prems by simp
  qed
qed

lemma well_formed_trim: "well_formed s \<Longrightarrow> well_formed (trim s)"
  unfolding trim_def by (intro well_formed_dropWhile_end well_formed_dropWhile)

text \<open>The queries the module builds.\<close>

lemma query_getLiveStock:
  "query_of [(utf16 ''action'', utf16 ''getLiveStock'')]
     = [(utf16 ''action'', utf16 ''getLiveStock'')]"
  by (simp add: query_of_def utf16_def is_high_surrogate_def is_low_surrogate_def)

lemma query_getComponents:
  "query_of [(utf16 ''action'', utf16 ''getComponents''), (utf16 ''case'', caseName)]
     = [(utf16 ''action'', utf16 ''getComponents''), (utf16 ''case'', to_usv caseName)]"
  by (simp add: query_of_def utf16_def is_high_surrogate_def is_low_surrogate_def)

lemma query_getUserHoldings:
  "query_of [(utf16 ''action'', utf16 ''getUserHoldings''), (utf16 ''userId'', userId)]
     = [(utf16 ''action'', utf16 ''getUserHoldings''), (utf16 ''userId'', to_usv userId)]"
  by (simp add: query_of_def utf16_def is_high_surrogate_def is_low_surrogate_def)

subsection \<open>Promises\<close>

lemma async_Inl: "async (Inl e, w) = (Inr (Rejected e), w)"
  by (simp add: async_def)

lemma async_Inr: "async (Inr v, w) = (Inr (Fulfilled v), w)"
  by (simp add: async_def)

lemma await_async: "await (async body) = body"
  by (cases body; cases "fst body") (auto simp: async_def await_def)

lemma snd_async: "snd (async body) = snd body"
  by (cases body; cases "fst body") (auto simp: async_def)

lemma snd_await: "snd (await call) = snd call"
  by (cases call; cases "fst call"; cases "projr (fst call)") (auto simp: await_def)

subsection \<open>The cache store\<close>

lemma getCached_absent: "c key = None \<Longrightarrow> getCached t key c = (JNull, c)"
  by (simp add: getCached_def)

lemma getCached_fresh:
  "c key = Some entry \<Longrightarrow> now - timestamp entry \<le> 120000 \<Longrightarrow>
   getCached now key c = (data entry, c)"
  by (simp add: getCached_def CACHE_TTL_MS_def)

lemma invalidateCache_key: "key \<noteq> [] \<Longrightarrow> invalidateCache (Some key) c = c(key := None)"
  by (simp add: invalidateCache_def)

lemma run_ops_absent: "c key = None \<Longrightarrow> run_ops ops c key = None"
proof (induction ops arbitrary: c)
  case Nil
  then show ?case by simp
next
  case (Cons op ops)
  show ?case
  proof (cases op)
    case (Lookup t k)
    have "snd (getCached t k c) key = None"
      using Cons.prems by (simp add: getCached_def split: option.splits)
    then show ?thesis using Lookup Cons.IH by simp
  next
    case (Invalidate k)
    have "invalidateCache k c key = None"
      using Cons.prems by (simp add: invalidateCache_def split: option.splits)
    then show ?thesis using Invalidate Cons.IH by simp
  qed
qed

text \<open>
  C4. A lookup after \<open>setCache\<close>, at a clock reading no more than 120000 ms after the
  one the entry was stored at, returns exactly the stored value and leaves the store as
  it is.
\<close>

theorem getCached_after_setCache:
  assumes "now' - now \<le> 120000"
  shows "getCached now' key (setCache now key v c) = (v, setCache now key v c)"
  using assms by (simp add: getCached_def setCache_def CACHE_TTL_MS_def)

theorem getCached_after_setCache_witness:
  "(120000::int) - 0 \<le> 120000 \<and>
   getCached 120000 (utf16 ''getCases'')
     (setCache 0 (utf16 ''getCases'') (JArr [JStr (utf16 ''TSYS Case1'')]) Map.empty)
   = (JArr [JStr (utf16 ''TSYS Case1'')],
      setCache 0 (utf16 ''getCases'') (JArr [JStr (utf16 ''TSYS Case1'')]) Map.empty)"
  using getCached_after_setCache
    [of 120000 0 "utf16 ''getCases''" "JArr [JStr (utf16 ''TSYS Case1'')]" Map.empty]
  by simp

text \<open>
  C5. A lookup of a key whose entry is more than 120000 ms old returns \<open>null\<close> and
  deletes the entry; after that, whatever lookups and invalidations follow (no
  \<open>setCache\<close>), every lookup of the key returns \<open>null\<close> again and changes nothing.
\<close>

theorem getCached_expired:
  assumes "c key = Some entry" and "now - timestamp entry > 120000"
  shows "getCached now key c = (JNull, c(key := None)) \<and>
         (\<forall>ops t. getCached t key (run_ops ops (snd (getCached now key c)))
                    = (JNull, run_ops ops (snd (getCached now key c))))"
proof -
  have first: "getCached now key c = (JNull, c(key := None))"
    using assms by (simp add: getCached_def CACHE_TTL_MS_def)
  have "run_ops ops (c(key := None)) key = None" for ops
    by (rule run_ops_absent) simp
  then show ?thesis
    using first by (simp add: getCached_absent)
qed

theorem getCached_expired_witness:
  "(Map.empty(utf16 ''getCases'' \<mapsto> \<lparr>data = JArr [], timestamp = 0\<rparr>)) (utf16 ''getCases'')
     = Some \<lparr>data = JArr [], timestamp = 0\<rparr> \<and>
   (120001::int) - timestamp \<lparr>data = JArr [], timestamp = 0\<rparr> > 120000 \<and>
   getCached 120001 (utf16 ''getCases'')
     (Map.empty(utf16 ''getCases'' \<mapsto> \<lparr>data = JArr [], timestamp = 0\<rparr>))
   = (JNull, Map.empty)"
  using getCached_expired
    [of "Map.empty(utf16 ''getCases'' \<mapsto> \<lparr>data = JArr [], timestamp = 0\<rparr>)"
        "utf16 ''getCases''" "\<lparr>data = JArr [], timestamp = 0\<rparr>" 120001]
  by simp

text \<open>
  C6, as the claim states it, fails: with the empty string as the key, the truthiness
  guard of \<open>invalidateCache\<close> takes the branch that clears the store, and the entry of
  another key is gone.
\<close>

theorem invalidateCache_empty_key_counterexample:
  "invalidateCache (Some [])
     (Map.empty(utf16 ''getCases'' \<mapsto> \<lparr>data = JArr [], timestamp = 0\<rparr>)) (utf16 ''getCases'')
   \<noteq> (Map.empty(utf16 ''getCases'' \<mapsto> \<lparr>data = JArr [], timestamp = 0\<rparr>)) (utf16 ''getCases'')"
  by (simp add: invalidateCache_def)

text \<open>
  C6, amended. With a key that is not the empty string, \<open>invalidateCache\<close> deletes the
  entry of that key and nothing else: every other key keeps its value and timestamp, and
  when the key has no entry the store is unchanged. Without a key, the store is emptied.
\<close>

theorem invalidateCache_frame:
  assumes "key \<noteq> []"
  shows "invalidateCache (Some key) c = c(key := None) \<and>
         (\<forall>k. k \<noteq> key \<longrightarrow> invalidateCache (Some key) c k = c k) \<and>
         (c key = None \<longrightarrow> invalidateCache (Some key) c = c) \<and>
         invalidateCache None c = Map.empty"
  using assms by (auto simp: invalidateCache_def)

theorem invalidateCache_frame_witness:
  "utf16 ''getLiveStock'' \<noteq> [] \<and>
   invalidateCache (Some (utf16 ''getLiveStock''))
     (Map.empty(utf16 ''getCases'' \<mapsto> \<lparr>data = JArr [], timestamp = 5\<rparr>,
                utf16 ''getLiveStock'' \<mapsto> \<lparr>data = JArr [], timestamp = 7\<rparr>))
     (utf16 ''getCases'') = Some \<lparr>data = JArr [], timestamp = 5\<rparr>"
  using invalidateCache_frame [of "utf16 ''getLiveStock''"
     "Map.empty(utf16 ''getCases'' \<mapsto> \<lparr>data = JArr [], timestamp = 5\<rparr>,
                utf16 ''getLiveStock'' \<mapsto> \<lparr>data = JArr [], timestamp = 7\<rparr>)"]
  by (simp add: utf16_def)

subsection \<open>The cached read\<close>

lemma get_failed: "failed r \<Longrightarrow> \<exists>e. fst (get params r w) = Inr (Rejected e)"
  by (cases r) (simp_all add: get_def async_def)

lemma get_requests:
  "requests (snd (get params r w)) = requests w @ [GET (query_of params)]"
  by (cases r) (simp_all add: get_def async_def)

lemma cachedGet_hit:
  "truthy (fst (getCached t key (cache w))) \<Longrightarrow>
   cachedGet t t' r key params w
     = (Inr (Fulfilled (fst (getCached t key (cache w)))),
        w\<lparr>cache := snd (getCached t key (cache w))\<rparr>)"
  by (cases "getCached t key (cache w)") (simp add: cachedGet_def async_def)

lemma cachedGet_miss_Body:
  "\<not> truthy (fst (getCached t key (cache w))) \<Longrightarrow>
   cachedGet t t' (Body v) key params w
     = (Inr (Fulfilled v),
        \<lparr>cache = setCache t' key v (snd (getCached t key (cache w))),
          requests = requests w @ [GET (query_of params)]\<rparr>)"
  by (cases "getCached t key (cache w)") (simp add: cachedGet_def get_def await_def async_def)

lemma cachedGet_miss_failed:
  "\<not> truthy (fst (getCached t key (cache w))) \<Longrightarrow> failed r \<Longrightarrow>
   cachedGet t t' r key params w
     = (fst (get params r w),
        \<lparr>cache = snd (getCached t key (cache w)),
          requests = requests w @ [GET (query_of params)]\<rparr>)"
  by (cases "getCached t key (cache w)"; cases r)
     (simp_all add: cachedGet_def get_def await_def async_def)

lemma cachedGet_absent:
  "cache w key = None \<Longrightarrow>
   requests (snd (cachedGet t t' r key params w)) = requests w @ [GET (query_of params)]"
  by (cases r) (simp_all add: cachedGet_def getCached_def get_def await_def async_def)

lemma cachedGet_fresh:
  assumes "cache w key = Some entry" "t - timestamp entry \<le> 120000" "truthy (data entry)"
  shows "cachedGet t t' r key params w = (Inr (Fulfilled (data entry)), w)"
proof -
  have "getCached t key (cache w) = (data entry, cache w)"
    using assms(1,2) by (rule getCached_fresh)
  then show ?thesis
    using assms(3) by (simp add: cachedGet_hit)
qed

lemma fetchLiveStock_cachedGet:
  "fetchLiveStock t t' r w
     = cachedGet t t' r (utf16 ''getLiveStock'') [(utf16 ''action'', utf16 ''getLiveStock'')] w"
  by (simp add: fetchLiveStock_def cachedGet_def await_async)

lemma fetchCases_cachedGet:
  "fetchCases t t' r w
     = cachedGet t t' r (utf16 ''getCases'') [(utf16 ''action'', utf16 ''getCases'')] w"
  by (simp add: fetchCases_def cachedGet_def await_async)

text \<open>
  C3. The three cached operations are declared to receive arrays (\<open>string[]\<close>,
  \<open>StockItem[]\<close>), so the cached values are arrays. A cached array no older than
  120000 ms is returned by \<open>cachedGet\<close> with the state unchanged: no request is sent.
  When a first \<open>fetchLiveStock\<close> finds nothing in the cache and the backend answers with
  an array, a second call within 120000 ms of the store returns the same array, and
  the two calls together have sent exactly one request.
\<close>

theorem cachedGet_hit_no_request:
  "(cache w key = Some entry \<and> t - timestamp entry \<le> 120000 \<and> data entry = JArr xs
      \<longrightarrow> cachedGet t t' r key params w = (Inr (Fulfilled (JArr xs)), w)) \<and>
   (fst (getCached t1 (utf16 ''getLiveStock'') (cache w0)) = JNull \<and> t3 - t2 \<le> 120000
      \<longrightarrow> (case fetchLiveStock t1 t2 (Body (JArr ys)) w0 of
             (res1, w1) \<Rightarrow>
               (case fetchLiveStock t3 t4 r' w1 of
                  (res2, w2) \<Rightarrow>
                    res1 = Inr (Fulfilled (JArr ys)) \<and> res2 = Inr (Fulfilled (JArr ys)) \<and>
                    requests w2 = requests w0 @ [GET [(utf16 ''action'', utf16 ''getLiveStock'')]])))"
proof (intro conjI impI)
  assume "cache w key = Some entry \<and> t - timestamp entry \<le> 120000 \<and> data entry = JArr xs"
  then show "cachedGet t t' r key params w = (Inr (Fulfilled (JArr xs)), w)"
    using cachedGet_fresh [of w key entry t t' r params] by simp
next
  let ?key = "utf16 ''getLiveStock''"
  let ?params = "[(utf16 ''action'', utf16 ''getLiveStock'')]"
  let ?w1 = "\<lparr>cache = setCache t2 ?key (JArr ys) (snd (getCached t1 ?key (cache w0))),
              requests = requests w0 @ [GET ?params]\<rparr>"
  assume a: "fst (getCached t1 ?key (cache w0)) = JNull \<and> t3 - t2 \<le> 120000"
  then have first: "fetchLiveStock t1 t2 (Body (JArr ys)) w0 = (Inr (Fulfilled (JArr ys)), ?w1)"
    by (simp add: fetchLiveStock_cachedGet cachedGet_miss_Body query_getLiveStock)
  have "cache ?w1 ?key = Some \<lparr>data = JArr ys, timestamp = t2\<rparr>"
    by (simp add: setCache_def)
  then have "cachedGet t3 t4 r' ?key ?params ?w1
      = (Inr (Fulfilled (data \<lparr>data = JArr ys, timestamp = t2\<rparr>)), ?w1)"
    using a by (intro cachedGet_fresh) simp_all
  then have second: "fetchLiveStock t3 t4 r' ?w1 = (Inr (Fulfilled (JArr ys)), ?w1)"
    by (simp add: fetchLiveStock_cachedGet)
  show "case fetchLiveStock t1 t2 (Body (JArr ys)) w0 of
          (res1, w1) \<Rightarrow>
            (case fetchLiveStock t3 t4 r' w1 of
               (res2, w2) \<Rightarrow>
                 res1 = Inr (Fulfilled (JArr ys)) \<and> res2 = Inr (Fulfilled (JArr ys)) \<and>
                 requests w2 = requests w0 @ [GET ?params])"
    by (simp add: first second)
qed

theorem cachedGet_hit_no_request_witness:
  "cache \<lparr>cache = Map.empty(utf16 ''getCases'' \<mapsto> \<lparr>data = JArr [], timestamp = 0\<rparr>), requests = []\<rparr>
     (utf16 ''getCases'') = Some \<lparr>data = JArr [], timestamp = 0\<rparr> \<and>
   (120000::int) - timestamp \<lparr>data = JArr [], timestamp = 0\<rparr> \<le> 120000 \<and>
   data \<lparr>data = JArr [], timestamp = 0\<rparr> = JArr [] \<and>
   cachedGet 120000 120000 NetworkFailure (utf16 ''getCases'') [(utf16 ''action'', utf16 ''getCases'')]
     \<lparr>cache = Map.empty(utf16 ''getCases'' \<mapsto> \<lparr>data = JArr [], timestamp = 0\<rparr>), requests = []\<rparr>
   = (Inr (Fulfilled (JArr [])),
      \<lparr>cache = Map.empty(utf16 ''getCases'' \<mapsto> \<lparr>data = JArr [], timestamp = 0\<rparr>), requests = []\<rparr>) \<and>
   fst (getCached 0 (utf16 ''getLiveStock'') (cache \<lparr>cache = Map.empty, requests = []\<rparr>)) = JNull \<and>
   (120010::int) - 10 \<le> 120000 \<and>
   (case fetchLiveStock 0 10
           (Body (JArr [JObj [(utf16 ''component'', JStr (utf16 ''SG90 Servo'')), (utf16 ''stock'', JNum (Num 3))]]))
           \<lparr>cache = Map.empty, requests = []\<rparr> of
      (res1, w1) \<Rightarrow>
        (case fetchLiveStock 120010 120020 NetworkFailure w1 of
           (res2, w2) \<Rightarrow>
             res2 = res1 \<and> requests w2 = [GET [(utf16 ''action'', utf16 ''getLiveStock'')]]))"
  using cachedGet_hit_no_request
    [where w = "\<lparr>cache = Map.empty(utf16 ''getCases'' \<mapsto> \<lparr>data = JArr [], timestamp = 0\<rparr>), requests = []\<rparr>"
       and key = "utf16 ''getCases''" and entry = "\<lparr>data = JArr [], timestamp = 0\<rparr>"
       and xs = "[]" and t = 120000 and t' = 120000 and r = NetworkFailure
       and params = "[(utf16 ''action'', utf16 ''getCases'')]"
       and ?t1.0 = 0 and ?t2.0 = 10 and ?t3.0 = 120010 and ?t4.0 = 120020 and r' = NetworkFailure
       and ?w0.0 = "\<lparr>cache = Map.empty, requests = []\<rparr>"
       and ys = "[JObj [(utf16 ''component'', JStr (utf16 ''SG90 Servo'')), (utf16 ''stock'', JNum (Num 3))]]"]
  by (simp add: getCached_def split: prod.splits)

text \<open>
  C8, as the claim states it, fails: when the miss is an expired entry, the lookup has
  deleted that entry before the request fails, so the cache after the call is not the
  cache before it.
\<close>

theorem cachedGet_failure_counterexample:
  "cache (snd (fetchCases 120001 120002 NetworkFailure
           \<lparr>cache = Map.empty(utf16 ''getCases'' \<mapsto> \<lparr>data = JArr [], timestamp = 0\<rparr>), requests = []\<rparr>))
   \<noteq> cache \<lparr>cache = Map.empty(utf16 ''getCases'' \<mapsto> \<lparr>data = JArr [], timestamp = 0\<rparr>), requests = []\<rparr>"
proof -
  have "cache (snd (fetchCases 120001 120002 NetworkFailure
           \<lparr>cache = Map.empty(utf16 ''getCases'' \<mapsto> \<lparr>data = JArr [], timestamp = 0\<rparr>), requests = []\<rparr>))
        = Map.empty"
    by (simp add: fetchCases_cachedGet cachedGet_def getCached_def get_def await_def async_def
          CACHE_TTL_MS_def)
  moreover have "Map.empty \<noteq> (Map.empty(utf16 ''getCases'' \<mapsto> \<lparr>data = JArr [], timestamp = 0\<rparr>))"
    by (metis map_upd_nonempty)
  ultimately show ?thesis
    by simp
qed

text \<open>
  C8, amended. When \<open>cachedGet\<close> misses and the request fails, the promise is rejected
  with the rejection of \<open>get\<close> and nothing is written: the cache is what the lookup
  left, every other key is unchanged, the key itself has its old entry or none, and when
  the key had no expired entry the cache equals the cache before the call.
\<close>

theorem cachedGet_failure_uncached:
  assumes "\<not> truthy (fst (getCached t key (cache w)))" and "failed r"
  shows "(\<exists>e. fst (cachedGet t t' r key params w) = Inr (Rejected e)) \<and>
         fst (cachedGet t t' r key params w) = fst (get params r w) \<and>
         cache (snd (cachedGet t t' r key params w)) = snd (getCached t key (cache w)) \<and>
         (\<forall>k. k \<noteq> key \<longrightarrow> cache (snd (cachedGet t t' r key params w)) k = cache w k) \<and>
         (cache (snd (cachedGet t t' r key params w)) key = None \<or>
          cache (snd (cachedGet t t' r key params w)) key = cache w key) \<and>
         ((\<forall>entry. cache w key = Some entry \<longrightarrow> t - timestamp entry \<le> 120000)
            \<longrightarrow> cache (snd (cachedGet t t' r key params w)) = cache w)"
proof -
  have eq: "cachedGet t t' r key params w
     = (fst (get params r w), \<lparr>cache = snd (getCached t key (cache w)),
                requests = requests w @ [GET (query_of params)]\<rparr>)"
    using assms by (rule cachedGet_miss_failed)
  have frame: "snd (getCached t key (cache w)) k = cache w k" if "k \<noteq> key" for k
    using that by (simp add: getCached_def split: option.splits)
  have own: "snd (getCached t key (cache w)) key = None \<or>
             snd (getCached t key (cache w)) key = cache w key"
    by (simp add: getCached_def split: option.splits)
  have same: "snd (getCached t key (cache w)) = cache w"
    if "\<forall>entry. cache w key = Some entry \<longrightarrow> t - timestamp entry \<le> 120000"
    using that by (cases "cache w key") (auto simp: getCached_def CACHE_TTL_MS_def)
  show ?thesis
    using get_failed [OF assms(2), of params w] frame own same by (simp add: eq)
qed

theorem cachedGet_failure_uncached_witness:
  "\<not> truthy (fst (getCached 5 (utf16 ''getCases'') (cache \<lparr>cache = Map.empty, requests = []\<rparr>))) \<and>
   failed (NotOk 500 (utf16 ''Internal Server Error'') :: json reply) \<and>
   cachedGet 5 6 (NotOk 500 (utf16 ''Internal Server Error'')) (utf16 ''getCases'')
       [(utf16 ''action'', utf16 ''getCases'')] \<lparr>cache = Map.empty, requests = []\<rparr>
     = (Inr (Rejected (Error (utf16 ''Request failed: 500 Internal Server Error''))),
        \<lparr>cache = Map.empty, requests = [GET [(utf16 ''action'', utf16 ''getCases'')]]\<rparr>)"
  using cachedGet_failure_uncached
    [of 5 "utf16 ''getCases''" "\<lparr>cache = Map.empty, requests = []\<rparr>"
        "NotOk 500 (utf16 ''Internal Server Error'')" 6 "[(utf16 ''action'', utf16 ''getCases'')]"]
  by (simp add: cachedGet_def getCached_def get_def await_def async_def query_of_def
        is_high_surrogate_def is_low_surrogate_def decimal.simps [of 500] decimal.simps [of 50] decimal.simps [of 5] utf16_def)

subsection \<open>Validation and the API functions\<close>

lemma utf16_append: "utf16 a @ utf16 b = utf16 (a @ b)"
  by (simp add: utf16_def)

lemma validateNotEmpty_eq:
  "validateNotEmpty v f =
     (if trim v = [] then Inl (Error (f @ utf16 '' is required.'')) else Inr ())"
  by (auto simp: validateNotEmpty_def trim_Nil)

lemma validateNotEmpty_ok_iff: "validateNotEmpty v f = Inr () \<longleftrightarrow> trim v \<noteq> []"
  by (simp add: validateNotEmpty_eq)

lemma validatePositiveInt_ok_iff:
  "validatePositiveInt q f = Inr () \<longleftrightarrow> Number_isInteger q \<and> \<not> number_less q (Num 1)"
  by (simp add: validatePositiveInt_def)

lemma not_positive_less_one:
  "Number_isInteger q \<Longrightarrow> \<not> number_less (Num 0) q \<Longrightarrow> number_less q (Num 1)"
  by (cases q) auto

lemma trim_Nil_validate: "trim s = [] \<Longrightarrow> validateNotEmpty s f = validateNotEmpty [] f"
  by (simp add: validateNotEmpty_eq trim_Nil)

lemma floor_three_halves: "\<lfloor>3 / 2 :: rat\<rfloor> = 1"
  by code_simp

text \<open>A call of an \<open>async\<close> function returns a promise, whatever its arguments.\<close>

lemma async_returns: "\<exists>p. fst (async body) = Inr p"
  by (cases body; cases "fst body") (auto simp: async_def)

lemma fetchComponentsByCase_invalid:
  "trim caseName = [] \<Longrightarrow>
   fetchComponentsByCase t1 t2 r caseName w
     = (Inr (Rejected (Error (utf16 ''Case name is required.''))), w)"
  by (simp add: fetchComponentsByCase_def validateNotEmpty_eq async_def utf16_append)

lemma fetchUserHoldings_invalid:
  "trim userId = [] \<Longrightarrow>
   fetchUserHoldings r userId w = (Inr (Rejected (Error (utf16 ''User ID is required.''))), w)"
  by (simp add: fetchUserHoldings_def validateNotEmpty_eq async_def utf16_append)

lemma borrowComponent_invalid_string:
  "trim userId = [] \<or> trim caseName = [] \<or> trim component = [] \<Longrightarrow>
   \<exists>f. borrowComponent shortest r userId caseName component quantity w
         = (Inr (Rejected (Error (f @ utf16 '' is required.''))), w)"
  by (auto simp: borrowComponent_def validateNotEmpty_eq async_def)

lemma borrowComponent_invalid_quantity:
  "trim userId \<noteq> [] \<Longrightarrow> trim caseName \<noteq> [] \<Longrightarrow> trim component \<noteq> [] \<Longrightarrow>
   \<not> Number_isInteger quantity \<or> number_less quantity (Num 1) \<Longrightarrow>
   borrowComponent shortest r userId caseName component quantity w
     = (Inr (Rejected (Error (utf16 ''Quantity must be a positive integer.''))), w)"
  by (auto simp: borrowComponent_def validateNotEmpty_eq validatePositiveInt_def async_def
        utf16_append)

lemma returnComponent_invalid_string:
  "trim userId = [] \<or> trim component = [] \<Longrightarrow>
   \<exists>f. returnComponent shortest r userId component quantity w
         = (Inr (Rejected (Error (f @ utf16 '' is required.''))), w)"
  by (auto simp: returnComponent_def validateNotEmpty_eq async_def)

lemma returnComponent_invalid_quantity:
  "trim userId \<noteq> [] \<Longrightarrow> trim component \<noteq> [] \<Longrightarrow>
   \<not> Number_isInteger quantity \<or> number_less quantity (Num 1) \<Longrightarrow>
   returnComponent shortest r userId component quantity w
     = (Inr (Rejected (Error (utf16 ''Quantity must be a positive integer.''))), w)"
  by (auto simp: returnComponent_def validateNotEmpty_eq validatePositiveInt_def async_def
        utf16_append)

lemma borrowComponent_accepted:
  assumes "trim userId \<noteq> []" "trim caseName \<noteq> []" "trim component \<noteq> []"
    and "Number_isInteger quantity" "\<not> number_less quantity (Num 1)"
    and "data_error d = None \<or> data_error d = Some []"
  shows "borrowComponent shortest (Body d) userId caseName component quantity w =
     (Inr (Fulfilled \<lparr>success = True,
           message = utf16 ''Successfully borrowed '' @ Number_toString shortest quantity
                     @ utf16 ''x '' @ component @ utf16 ''!''\<rparr>),
      \<lparr>cache = (cache w)(utf16 ''getLiveStock'' := None, utf16 ''getComponents:'' @ caseName := None),
        requests = requests w @
          [POST [(utf16 ''action'', JStr (utf16 ''borrow'')),
                 (utf16 ''userId'', JStr (trim userId)),
                 (utf16 ''caseName'', JStr caseName),
                 (utf16 ''component'', JStr component),
                 (utf16 ''quantity'', JNum quantity)]]\<rparr>)"
proof -
  have k1: "utf16 ''getLiveStock'' \<noteq> []" and k2: "utf16 ''getComponents:'' @ caseName \<noteq> []"
    by (simp_all add: utf16_def)
  show ?thesis
    using assms
    by (cases "data_error d")
       (simp_all add: borrowComponent_def validateNotEmpty_eq validatePositiveInt_def post_def
          await_def async_def invalidateCache_key [OF k1] invalidateCache_key [OF k2] Let_def)
qed

lemma borrowComponent_rejected:
  assumes "trim userId \<noteq> []" "trim caseName \<noteq> []" "trim component \<noteq> []"
    and "Number_isInteger quantity" "\<not> number_less quantity (Num 1)"
    and "data_error d = Some e" "e \<noteq> []"
  shows "borrowComponent shortest (Body d) userId caseName component quantity w =
     (Inr (Fulfilled \<lparr>success = False, message = e\<rparr>),
      \<lparr>cache = cache w,
        requests = requests w @
          [POST [(utf16 ''action'', JStr (utf16 ''borrow'')),
                 (utf16 ''userId'', JStr (trim userId)),
                 (utf16 ''caseName'', JStr caseName),
                 (utf16 ''component'', JStr component),
                 (utf16 ''quantity'', JNum quantity)]]\<rparr>)"
  using assms
  by (simp add: borrowComponent_def validateNotEmpty_eq validatePositiveInt_def post_def
        await_def async_def Let_def)

lemma returnComponent_accepted:
  assumes "trim userId \<noteq> []" "trim component \<noteq> []"
    and "Number_isInteger quantity" "\<not> number_less quantity (Num 1)"
    and "data_error d = None \<or> data_error d = Some []"
  shows "returnComponent shortest (Body d) userId component quantity w =
     (Inr (Fulfilled \<lparr>success = True,
           message = utf16 ''Successfully returned '' @ Number_toString shortest quantity
                     @ utf16 ''x '' @ component @ utf16 ''!''\<rparr>),
      \<lparr>cache = (cache w)(utf16 ''getLiveStock'' := None),
        requests = requests w @
          [POST [(utf16 ''action'', JStr (utf16 ''return'')),
                 (utf16 ''userId'', JStr (trim userId)),
                 (utf16 ''component'', JStr component),
                 (utf16 ''quantity'', JNum quantity)]]\<rparr>)"
proof -
  have k1: "utf16 ''getLiveStock'' \<noteq> []"
    by (simp add: utf16_def)
  show ?thesis
    using assms
    by (cases "data_error d")
       (simp_all add: returnComponent_def validateNotEmpty_eq validatePositiveInt_def post_def
          await_def async_def invalidateCache_key [OF k1] Let_def)
qed

lemma returnComponent_rejected:
  assumes "trim userId \<noteq> []" "trim component \<noteq> []"
    and "Number_isInteger quantity" "\<not> number_less quantity (Num 1)"
    and "data_error d = Some e" "e \<noteq> []"
  shows "returnComponent shortest (Body d) userId component quantity w =
     (Inr (Fulfilled \<lparr>success = False, message = e\<rparr>),
      \<lparr>cache = cache w,
        requests = requests w @
          [POST [(utf16 ''action'', JStr (utf16 ''return'')),
                 (utf16 ''userId'', JStr (trim userId)),
                 (utf16 ''component'', JStr component),
                 (utf16 ''quantity'', JNum quantity)]]\<rparr>)"
  using assms
  by (simp add: returnComponent_def validateNotEmpty_eq validatePositiveInt_def post_def
        await_def async_def Let_def)

lemma borrowComponent_requests:
  assumes "trim userId \<noteq> []" "trim caseName \<noteq> []" "trim component \<noteq> []"
    and "Number_isInteger quantity" "\<not> number_less quantity (Num 1)"
  shows "requests (snd (borrowComponent shortest r userId caseName component quantity w)) =
     requests w @
       [POST [(utf16 ''action'', JStr (utf16 ''borrow'')),
              (utf16 ''userId'', JStr (trim userId)),
              (utf16 ''caseName'', JStr caseName),
              (utf16 ''component'', JStr component),
              (utf16 ''quantity'', JNum quantity)]]"
proof (cases r)
  case (Body d)
  then show ?thesis
    using assms
    by (cases "data_error d")
       (simp_all add: borrowComponent_def validateNotEmpty_eq validatePositiveInt_def post_def
          await_def async_def Let_def)
qed (use assms in \<open>simp_all add: borrowComponent_def validateNotEmpty_eq validatePositiveInt_def
       post_def await_def async_def\<close>)

lemma returnComponent_requests:
  assumes "trim userId \<noteq> []" "trim component \<noteq> []"
    and "Number_isInteger quantity" "\<not> number_less quantity (Num 1)"
  shows "requests (snd (returnComponent shortest r userId component quantity w)) =
     requests w @
       [POST [(utf16 ''action'', JStr (utf16 ''return'')),
              (utf16 ''userId'', JStr (trim userId)),
              (utf16 ''component'', JStr component),
              (utf16 ''quantity'', JNum quantity)]]"
proof (cases r)
  case (Body d)
  then show ?thesis
    using assms
    by (cases "data_error d")
       (simp_all add: returnComponent_def validateNotEmpty_eq validatePositiveInt_def post_def
          await_def async_def Let_def)
qed (use assms in \<open>simp_all add: returnComponent_def validateNotEmpty_eq validatePositiveInt_def
       post_def await_def async_def\<close>)

lemma fetchUserHoldings_requests:
  assumes "trim userId \<noteq> []"
  shows "requests (snd (fetchUserHoldings r userId w)) =
     requests w @
       [GET [(utf16 ''action'', utf16 ''getUserHoldings''), (utf16 ''userId'', to_usv (trim userId))]]"
  using assms
  by (simp add: fetchUserHoldings_def validateNotEmpty_eq snd_async snd_await get_requests
        query_getUserHoldings)

lemma fetchComponentsByCase_cachedGet:
  "trim caseName \<noteq> [] \<Longrightarrow>
   fetchComponentsByCase t t' r caseName w
     = cachedGet t t' r (utf16 ''getComponents:'' @ caseName)
         [(utf16 ''action'', utf16 ''getComponents''), (utf16 ''case'', caseName)] w"
  by (simp add: fetchComponentsByCase_def validateNotEmpty_eq cachedGet_def await_async)

text \<open>
  C7, as the claim states it, fails: the operations are \<open>async\<close> functions, so the call
  \<open>returnComponent("u1", "Widget", 0)\<close> raises nothing; it returns a promise, rejected
  with a plain \<open>Error\<close>.
\<close>

theorem validation_not_raised_counterexample:
  "fst (returnComponent (\<lambda>x. []) (Body \<lparr>data_success = Some True, data_error = None\<rparr>)
          (utf16 ''u1'') (utf16 ''Widget'') (Num 0) \<lparr>cache = Map.empty, requests = []\<rparr>)
     = Inr (Rejected (Error (utf16 ''Quantity must be a positive integer.''))) \<and>
   fst (returnComponent (\<lambda>x. []) (Body \<lparr>data_success = Some True, data_error = None\<rparr>)
          (utf16 ''u1'') (utf16 ''Widget'') (Num 0) \<lparr>cache = Map.empty, requests = []\<rparr>)
     \<noteq> Inl (Error (utf16 ''Quantity must be a positive integer.''))"
  by (simp add: returnComponent_def validateNotEmpty_eq validatePositiveInt_def async_def
        trim_def is_white_space_def utf16_def)

text \<open>
  C7, amended. In each of the four API functions that take arguments, an empty required
  string, or a quantity that is not an integer or not positive, makes the promise that
  the call returns reject with the \<open>Error\<close> of the validator that fails first
  (\<open><field> is required.\<close> or \<open><field> must be a positive integer.\<close>), with the state
  exactly as it was: nothing is sent, the cache is untouched. No call raises.
\<close>

theorem validation_rejects_before_request:
  "(caseName = [] \<longrightarrow>
      fetchComponentsByCase t1 t2 r caseName w
        = (Inr (Rejected (Error (utf16 ''Case name is required.''))), w)) \<and>
   (userId = [] \<or> caseName = [] \<or> component = [] \<or>
    \<not> Number_isInteger quantity \<or> \<not> number_less (Num 0) quantity \<longrightarrow>
      (\<exists>f. borrowComponent shortest rp userId caseName component quantity w
              = (Inr (Rejected (Error (f @ utf16 '' is required.''))), w) \<or>
            borrowComponent shortest rp userId caseName component quantity w
              = (Inr (Rejected (Error (f @ utf16 '' must be a positive integer.''))), w))) \<and>
   (userId = [] \<longrightarrow>
      fetchUserHoldings r userId w = (Inr (Rejected (Error (utf16 ''User ID is required.''))), w)) \<and>
   (userId = [] \<or> component = [] \<or>
    \<not> Number_isInteger quantity \<or> \<not> number_less (Num 0) quantity \<longrightarrow>
      (\<exists>f. returnComponent shortest rp userId component quantity w
              = (Inr (Rejected (Error (f @ utf16 '' is required.''))), w) \<or>
            returnComponent shortest rp userId component quantity w
              = (Inr (Rejected (Error (f @ utf16 '' must be a positive integer.''))), w))) \<and>
   (\<exists>p. fst (fetchComponentsByCase t1 t2 r caseName w) = Inr p) \<and>
   (\<exists>p. fst (borrowComponent shortest rp userId caseName component quantity w) = Inr p) \<and>
   (\<exists>p. fst (fetchUserHoldings r userId w) = Inr p) \<and>
   (\<exists>p. fst (returnComponent shortest rp userId component quantity w) = Inr p)"
proof (intro conjI impI)
  assume "caseName = []"
  then show "fetchComponentsByCase t1 t2 r caseName w
        = (Inr (Rejected (Error (utf16 ''Case name is required.''))), w)"
    by (simp add: fetchComponentsByCase_invalid trim_Nil)
next
  assume "userId = []"
  then show "fetchUserHoldings r userId w
        = (Inr (Rejected (Error (utf16 ''User ID is required.''))), w)"
    by (simp add: fetchUserHoldings_invalid trim_Nil)
next
  assume a: "userId = [] \<or> caseName = [] \<or> component = [] \<or>
          \<not> Number_isInteger quantity \<or> \<not> number_less (Num 0) quantity"
  show "\<exists>f. borrowComponent shortest rp userId caseName component quantity w
              = (Inr (Rejected (Error (f @ utf16 '' is required.''))), w) \<or>
            borrowComponent shortest rp userId caseName component quantity w
              = (Inr (Rejected (Error (f @ utf16 '' must be a positive integer.''))), w)"
  proof (cases "trim userId = [] \<or> trim caseName = [] \<or> trim component = []")
    case True
    then show ?thesis
      using borrowComponent_invalid_string [of userId caseName component shortest rp quantity w]
      by blast
  next
    case False
    then have "\<not> Number_isInteger quantity \<or> number_less quantity (Num 1)"
      using a not_positive_less_one [of quantity] by (auto simp: trim_Nil)
    then have "borrowComponent shortest rp userId caseName component quantity w
        = (Inr (Rejected (Error (utf16 ''Quantity'' @ utf16 '' must be a positive integer.''))), w)"
      using False by (simp add: borrowComponent_invalid_quantity utf16_append)
    then show ?thesis by blast
  qed
next
  assume a: "userId = [] \<or> component = [] \<or>
          \<not> Number_isInteger quantity \<or> \<not> number_less (Num 0) quantity"
  show "\<exists>f. returnComponent shortest rp userId component quantity w
              = (Inr (Rejected (Error (f @ utf16 '' is required.''))), w) \<or>
            returnComponent shortest rp userId component quantity w
              = (Inr (Rejected (Error (f @ utf16 '' must be a positive integer.''))), w)"
  proof (cases "trim userId = [] \<or> trim component = []")
    case True
    then show ?thesis
      using returnComponent_invalid_string [of userId component shortest rp quantity w]
      by blast
  next
    case False
    then have "\<not> Number_isInteger quantity \<or> number_less quantity (Num 1)"
      using a not_positive_less_one [of quantity] by (auto simp: trim_Nil)
    then have "returnComponent shortest rp userId component quantity w
        = (Inr (Rejected (Error (utf16 ''Quantity'' @ utf16 '' must be a positive integer.''))), w)"
      using False by (simp add: returnComponent_invalid_quantity utf16_append)
    then show ?thesis by blast
  qed
next
  show "\<exists>p. fst (fetchComponentsByCase t1 t2 r caseName w) = Inr p"
    unfolding fetchComponentsByCase_def by (rule async_returns)
next
  show "\<exists>p. fst (borrowComponent shortest rp userId caseName component quantity w) = Inr p"
    unfolding borrowComponent_def by (rule async_returns)
next
  show "\<exists>p. fst (fetchUserHoldings r userId w) = Inr p"
    unfolding fetchUserHoldings_def by (rule async_returns)
next
  show "\<exists>p. fst (returnComponent shortest rp userId component quantity w) = Inr p"
    unfolding returnComponent_def by (rule async_returns)
qed

theorem validation_rejects_before_request_witness:
  "\<not> number_less (Num 0) (Num 0) \<and>
   returnComponent (\<lambda>x. []) (Body \<lparr>data_success = Some True, data_error = None\<rparr>)
       (utf16 ''u1'') (utf16 ''Widget'') (Num 0) \<lparr>cache = Map.empty, requests = []\<rparr>
     = (Inr (Rejected (Error (utf16 ''Quantity must be a positive integer.''))),
        \<lparr>cache = Map.empty, requests = []\<rparr>) \<and>
   \<not> Number_isInteger (Num (3 / 2)) \<and>
   returnComponent (\<lambda>x. []) (Body \<lparr>data_success = Some True, data_error = None\<rparr>)
       (utf16 ''u1'') (utf16 ''Widget'') (Num (3 / 2)) \<lparr>cache = Map.empty, requests = []\<rparr>
     = (Inr (Rejected (Error (utf16 ''Quantity must be a positive integer.''))),
        \<lparr>cache = Map.empty, requests = []\<rparr>) \<and>
   borrowComponent (\<lambda>x. []) (Body \<lparr>data_success = Some True, data_error = None\<rparr>)
       [] [] [] (Num 0) \<lparr>cache = Map.empty, requests = []\<rparr>
     = (Inr (Rejected (Error (utf16 ''User ID is required.''))),
        \<lparr>cache = Map.empty, requests = []\<rparr>) \<and>
   fetchComponentsByCase 0 0 (Body (JArr [])) [] \<lparr>cache = Map.empty, requests = []\<rparr>
     = (Inr (Rejected (Error (utf16 ''Case name is required.''))),
        \<lparr>cache = Map.empty, requests = []\<rparr>) \<and>
   fetchUserHoldings (Body (JArr [])) [] \<lparr>cache = Map.empty, requests = []\<rparr>
     = (Inr (Rejected (Error (utf16 ''User ID is required.''))),
        \<lparr>cache = Map.empty, requests = []\<rparr>)"
  using validation_rejects_before_request
    [where userId = "[]" and caseName = "[]" and component = "[]" and quantity = "Num 0"
       and shortest = "\<lambda>x. []" and rp = "Body \<lparr>data_success = Some True, data_error = None\<rparr>"
       and r = "Body (JArr [])" and ?t1.0 = 0 and ?t2.0 = 0
       and w = "\<lparr>cache = Map.empty, requests = []\<rparr>"]
    validation_rejects_before_request
    [where userId = "utf16 ''u1''" and component = "utf16 ''Widget''" and quantity = "Num (3 / 2)"
       and shortest = "\<lambda>x. []" and rp = "Body \<lparr>data_success = Some True, data_error = None\<rparr>"
       and w = "\<lparr>cache = Map.empty, requests = []\<rparr>"]
  by (simp add: returnComponent_def borrowComponent_def fetchComponentsByCase_def
        fetchUserHoldings_def validateNotEmpty_eq validatePositiveInt_def async_def trim_def
        is_white_space_def floor_three_halves utf16_def)

text \<open>
  C9. A required string made only of white space is rejected like the empty string: the
  validator gives the same error, and each API function returns what it returns for the
  empty string in that position, a promise rejected with a \<open><field> is required.\<close>
  error, with the state unchanged.
\<close>

theorem whitespace_only_rejected:
  assumes "\<forall>ch\<in>set s. is_white_space ch"
  shows "validateNotEmpty s fieldName = Inl (Error (fieldName @ utf16 '' is required.'')) \<and>
         validateNotEmpty s fieldName = validateNotEmpty [] fieldName \<and>
         fetchComponentsByCase t1 t2 r s w = fetchComponentsByCase t1 t2 r [] w \<and>
         (\<exists>f. fetchComponentsByCase t1 t2 r s w
               = (Inr (Rejected (Error (f @ utf16 '' is required.''))), w)) \<and>
         fetchUserHoldings r s w = fetchUserHoldings r [] w \<and>
         (\<exists>f. fetchUserHoldings r s w
               = (Inr (Rejected (Error (f @ utf16 '' is required.''))), w)) \<and>
         borrowComponent shortest rp s caseName component quantity w
           = borrowComponent shortest rp [] caseName component quantity w \<and>
         (\<exists>f. borrowComponent shortest rp s caseName component quantity w
               = (Inr (Rejected (Error (f @ utf16 '' is required.''))), w)) \<and>
         borrowComponent shortest rp userId s component quantity w
           = borrowComponent shortest rp userId [] component quantity w \<and>
         (\<exists>f. borrowComponent shortest rp userId s component quantity w
               = (Inr (Rejected (Error (f @ utf16 '' is required.''))), w)) \<and>
         borrowComponent shortest rp userId caseName s quantity w
           = borrowComponent shortest rp userId caseName [] quantity w \<and>
         (\<exists>f. borrowComponent shortest rp userId caseName s quantity w
               = (Inr (Rejected (Error (f @ utf16 '' is required.''))), w)) \<and>
         returnComponent shortest rp s component quantity w
           = returnComponent shortest rp [] component quantity w \<and>
         (\<exists>f. returnComponent shortest rp s component quantity w
               = (Inr (Rejected (Error (f @ utf16 '' is required.''))), w)) \<and>
         returnComponent shortest rp userId s quantity w
           = returnComponent shortest rp userId [] quantity w \<and>
         (\<exists>f. returnComponent shortest rp userId s quantity w
               = (Inr (Rejected (Error (f @ utf16 '' is required.''))), w))"
proof -
  have t: "trim s = []"
    using assms by (rule trim_white_space)
  have v: "validateNotEmpty s f = validateNotEmpty [] f" for f
    using t by (rule trim_Nil_validate)
  have "validateNotEmpty s fieldName = Inl (Error (fieldName @ utf16 '' is required.''))"
    using t by (simp add: validateNotEmpty_eq)
  moreover have "fetchComponentsByCase t1 t2 r s w = fetchComponentsByCase t1 t2 r [] w"
    using t by (simp add: fetchComponentsByCase_def validateNotEmpty_eq trim_Nil)
  moreover have "fetchUserHoldings r s w = fetchUserHoldings r [] w"
    using t by (simp add: fetchUserHoldings_def validateNotEmpty_eq trim_Nil)
  moreover have "borrowComponent shortest rp s caseName component quantity w
           = borrowComponent shortest rp [] caseName component quantity w"
    using t by (simp add: borrowComponent_def validateNotEmpty_eq trim_Nil)
  moreover have "borrowComponent shortest rp userId s component quantity w
           = borrowComponent shortest rp userId [] component quantity w"
    using t by (simp add: borrowComponent_def validateNotEmpty_eq trim_Nil)
  moreover have "borrowComponent shortest rp userId caseName s quantity w
           = borrowComponent shortest rp userId caseName [] quantity w"
    using t by (simp add: borrowComponent_def validateNotEmpty_eq trim_Nil)
  moreover have "returnComponent shortest rp s component quantity w
           = returnComponent shortest rp [] component quantity w"
    using t by (simp add: returnComponent_def validateNotEmpty_eq trim_Nil)
  moreover have "returnComponent shortest rp userId s quantity w
           = returnComponent shortest rp userId [] quantity w"
    using t by (simp add: returnComponent_def validateNotEmpty_eq trim_Nil)
  moreover have "\<exists>f. fetchComponentsByCase t1 t2 r s w
               = (Inr (Rejected (Error (f @ utf16 '' is required.''))), w)"
    using t by (intro exI [of _ "utf16 ''Case name''"])
      (simp add: fetchComponentsByCase_invalid utf16_append)
  moreover have "\<exists>f. fetchUserHoldings r s w
               = (Inr (Rejected (Error (f @ utf16 '' is required.''))), w)"
    using t by (intro exI [of _ "utf16 ''User ID''"])
      (simp add: fetchUserHoldings_invalid utf16_append)
  moreover have "\<exists>f. borrowComponent shortest rp s caseName component quantity w
               = (Inr (Rejected (Error (f @ utf16 '' is required.''))), w)"
    using t by (intro borrowComponent_invalid_string) simp
  moreover have "\<exists>f. borrowComponent shortest rp userId s component quantity w
               = (Inr (Rejected (Error (f @ utf16 '' is required.''))), w)"
    using t by (intro borrowComponent_invalid_string) simp
  moreover have "\<exists>f. borrowComponent shortest rp userId caseName s quantity w
               = (Inr (Rejected (Error (f @ utf16 '' is required.''))), w)"
    using t by (intro borrowComponent_invalid_string) simp
  moreover have "\<exists>f. returnComponent shortest rp s component quantity w
               = (Inr (Rejected (Error (f @ utf16 '' is required.''))), w)"
    using t by (intro returnComponent_invalid_string) simp
  moreover have "\<exists>f. returnComponent shortest rp userId s quantity w
               = (Inr (Rejected (Error (f @ utf16 '' is required.''))), w)"
    using t by (intro returnComponent_invalid_string) simp
  ultimately show ?thesis
    using v by blast
qed

theorem whitespace_only_rejected_witness:
  "is_white_space 0x20 \<and> is_white_space 0x09 \<and> is_white_space 0xA0 \<and> is_white_space 0x3000 \<and>
   validateNotEmpty [0x20, 0x09, 0xA0, 0x3000] (utf16 ''User ID'')
     = Inl (Error (utf16 ''User ID is required.'')) \<and>
   borrowComponent (\<lambda>x. []) (Body \<lparr>data_success = Some True, data_error = None\<rparr>)
       (utf16 ''u1'') [0x20, 0x09, 0xA0, 0x3000] (utf16 ''Widget'') (Num 2)
       \<lparr>cache = Map.empty, requests = []\<rparr>
     = (Inr (Rejected (Error (utf16 ''Case name is required.''))),
        \<lparr>cache = Map.empty, requests = []\<rparr>)"
  using whitespace_only_rejected
    [where s = "[0x20, 0x09, 0xA0, 0x3000]" and fieldName = "utf16 ''User ID''"
       and shortest = "\<lambda>x. []" and rp = "Body \<lparr>data_success = Some True, data_error = None\<rparr>"
       and userId = "utf16 ''u1''" and caseName = "utf16 ''Case A''"
       and component = "utf16 ''Widget''" and quantity = "Num 2"
       and w = "\<lparr>cache = Map.empty, requests = []\<rparr>"]
  by (simp add: borrowComponent_def validateNotEmpty_eq async_def trim_def is_white_space_def
        utf16_def)

text \<open>
  C10, as the claim states it, fails for \<open>fetchUserHoldings\<close>: the user id goes into
  the query through \<open>url.searchParams.set\<close>, which replaces an unpaired surrogate. For
  the user id made of the code units \<open>0x75\<close> and \<open>0xD800\<close>, valid and unchanged by
  \<open>trim\<close>, what is sent is \<open>0x75\<close> followed by \<open>0xFFFD\<close>.
\<close>

theorem userId_query_counterexample:
  "validateNotEmpty [0x75, 0xD800] (utf16 ''User ID'') = Inr () \<and>
   trim [0x75, 0xD800] = [0x75, 0xD800] \<and>
   requests (snd (fetchUserHoldings (Body (JArr [])) [0x75, 0xD800]
                    \<lparr>cache = Map.empty, requests = []\<rparr>))
     = [GET [(utf16 ''action'', utf16 ''getUserHoldings''), (utf16 ''userId'', [0x75, 0xFFFD])]]"
  by (simp add: fetchUserHoldings_def validateNotEmpty_eq get_def await_def async_def
        query_of_def is_high_surrogate_def is_low_surrogate_def trim_def is_white_space_def
        utf16_def)

text \<open>
  C10, amended. On a call that passes validation, \<open>borrowComponent\<close> and
  \<open>returnComponent\<close> send exactly one request, in whose body the user id is
  \<open>trim userId\<close> (the argument without the white space at its two ends) and the case
  name and the component are the arguments as given; the confirmation message of a
  successful transaction contains the component as given. \<open>fetchUserHoldings\<close> sends
  exactly one request, in whose query the user id is \<open>trim userId\<close> with every unpaired
  surrogate replaced by \<open>U+FFFD\<close>, which is \<open>trim userId\<close> itself when the argument is
  well formed.
\<close>

theorem userId_trimmed_rest_verbatim:
  "(validateNotEmpty userId (utf16 ''User ID'') = Inr () \<and>
    validateNotEmpty caseName (utf16 ''Case name'') = Inr () \<and>
    validateNotEmpty component (utf16 ''Component'') = Inr () \<and>
    validatePositiveInt quantity (utf16 ''Quantity'') = Inr ()
    \<longrightarrow> requests (snd (borrowComponent shortest rp userId caseName component quantity w))
          = requests w @
            [POST [(utf16 ''action'', JStr (utf16 ''borrow'')),
                   (utf16 ''userId'', JStr (trim userId)),
                   (utf16 ''caseName'', JStr caseName),
                   (utf16 ''component'', JStr component),
                   (utf16 ''quantity'', JNum quantity)]] \<and>
        (data_error d = None \<longrightarrow>
           fst (borrowComponent shortest (Body d) userId caseName component quantity w)
           = Inr (Fulfilled \<lparr>success = True,
                  message = utf16 ''Successfully borrowed '' @ Number_toString shortest quantity
                            @ utf16 ''x '' @ component @ utf16 ''!''\<rparr>))) \<and>
   (validateNotEmpty userId (utf16 ''User ID'') = Inr () \<and>
    validateNotEmpty component (utf16 ''Component'') = Inr () \<and>
    validatePositiveInt quantity (utf16 ''Quantity'') = Inr ()
    \<longrightarrow> requests (snd (returnComponent shortest rp userId component quantity w))
          = requests w @
            [POST [(utf16 ''action'', JStr (utf16 ''return'')),
                   (utf16 ''userId'', JStr (trim userId)),
                   (utf16 ''component'', JStr component),
                   (utf16 ''quantity'', JNum quantity)]] \<and>
        (data_error d = None \<longrightarrow>
           fst (returnComponent shortest (Body d) userId component quantity w)
           = Inr (Fulfilled \<lparr>success = True,
                  message = utf16 ''Successfully returned '' @ Number_toString shortest quantity
                            @ utf16 ''x '' @ component @ utf16 ''!''\<rparr>))) \<and>
   (validateNotEmpty userId (utf16 ''User ID'') = Inr ()
    \<longrightarrow> requests (snd (fetchUserHoldings r userId w))
          = requests w @
            [GET [(utf16 ''action'', utf16 ''getUserHoldings''),
                  (utf16 ''userId'', to_usv (trim userId))]] \<and>
        (well_formed userId \<longrightarrow> to_usv (trim userId) = trim userId) \<and>
        (\<exists>pre suf. userId = pre @ trim userId @ suf \<and>
           (\<forall>ch\<in>set pre. is_white_space ch) \<and> (\<forall>ch\<in>set suf. is_white_space ch)) \<and>
        \<not> is_white_space (hd (trim userId)) \<and> \<not> is_white_space (last (trim userId)))"
proof (intro conjI impI)
  assume a: "validateNotEmpty userId (utf16 ''User ID'') = Inr () \<and>
    validateNotEmpty caseName (utf16 ''Case name'') = Inr () \<and>
    validateNotEmpty component (utf16 ''Component'') = Inr () \<and>
    validatePositiveInt quantity (utf16 ''Quantity'') = Inr ()"
  then have v: "trim userId \<noteq> []" "trim caseName \<noteq> []" "trim component \<noteq> []"
      "Number_isInteger quantity" "\<not> number_less quantity (Num 1)"
    by (simp_all add: validateNotEmpty_ok_iff validatePositiveInt_ok_iff)
  show "requests (snd (borrowComponent shortest rp userId caseName component quantity w))
          = requests w @
            [POST [(utf16 ''action'', JStr (utf16 ''borrow'')),
                   (utf16 ''userId'', JStr (trim userId)),
                   (utf16 ''caseName'', JStr caseName),
                   (utf16 ''component'', JStr component),
                   (utf16 ''quantity'', JNum quantity)]]"
    using v by (rule borrowComponent_requests)
  show "fst (borrowComponent shortest (Body d) userId caseName component quantity w)
           = Inr (Fulfilled \<lparr>success = True,
                  message = utf16 ''Successfully borrowed '' @ Number_toString shortest quantity
                            @ utf16 ''x '' @ component @ utf16 ''!''\<rparr>)"
    if "data_error d = None"
    using v that by (simp add: borrowComponent_accepted)
next
  assume a: "validateNotEmpty userId (utf16 ''User ID'') = Inr () \<and>
    validateNotEmpty component (utf16 ''Component'') = Inr () \<and>
    validatePositiveInt quantity (utf16 ''Quantity'') = Inr ()"
  then have v: "trim userId \<noteq> []" "trim component \<noteq> []"
      "Number_isInteger quantity" "\<not> number_less quantity (Num 1)"
    by (simp_all add: validateNotEmpty_ok_iff validatePositiveInt_ok_iff)
  show "requests (snd (returnComponent shortest rp userId component quantity w))
          = requests w @
            [POST [(utf16 ''action'', JStr (utf16 ''return'')),
                   (utf16 ''userId'', JStr (trim userId)),
                   (utf16 ''component'', JStr component),
                   (utf16 ''quantity'', JNum quantity)]]"
    using v by (rule returnComponent_requests)
  show "fst (returnComponent shortest (Body d) userId component quantity w)
           = Inr (Fulfilled \<lparr>success = True,
                  message = utf16 ''Successfully returned '' @ Number_toString shortest quantity
                            @ utf16 ''x '' @ component @ utf16 ''!''\<rparr>)"
    if "data_error d = None"
    using v that by (simp add: returnComponent_accepted)
next
  assume "validateNotEmpty userId (utf16 ''User ID'') = Inr ()"
  then have v: "trim userId \<noteq> []"
    by (simp add: validateNotEmpty_ok_iff)
  show "requests (snd (fetchUserHoldings r userId w))
          = requests w @
            [GET [(utf16 ''action'', utf16 ''getUserHoldings''),
                  (utf16 ''userId'', to_usv (trim userId))]]"
    using v by (rule fetchUserHoldings_requests)
  show "to_usv (trim userId) = trim userId" if "well_formed userId"
    using that by (intro to_usv_well_formed well_formed_trim)
  show "\<exists>pre suf. userId = pre @ trim userId @ suf \<and>
           (\<forall>ch\<in>set pre. is_white_space ch) \<and> (\<forall>ch\<in>set suf. is_white_space ch)"
    by (rule trim_decompose)
  show "\<not> is_white_space (hd (trim userId))" "\<not> is_white_space (last (trim userId))"
    using trim_ends [OF v] by simp_all
qed

theorem userId_trimmed_rest_verbatim_witness:
  "validateNotEmpty (utf16 ''  u1 '') (utf16 ''User ID'') = Inr () \<and>
   validateNotEmpty (utf16 '' Case A'') (utf16 ''Case name'') = Inr () \<and>
   validateNotEmpty (utf16 ''Widget '') (utf16 ''Component'') = Inr () \<and>
   validatePositiveInt (Num 2) (utf16 ''Quantity'') = Inr () \<and>
   data_error \<lparr>data_success = Some True, data_error = None\<rparr> = None \<and>
   well_formed (utf16 ''  u1 '') \<and>
   borrowComponent (\<lambda>x. []) (Body \<lparr>data_success = Some True, data_error = None\<rparr>)
       (utf16 ''  u1 '') (utf16 '' Case A'') (utf16 ''Widget '') (Num 2)
       \<lparr>cache = Map.empty, requests = []\<rparr>
     = (Inr (Fulfilled \<lparr>success = True, message = utf16 ''Successfully borrowed 2x Widget !''\<rparr>),
        \<lparr>cache = Map.empty,
          requests = [POST [(utf16 ''action'', JStr (utf16 ''borrow'')),
                            (utf16 ''userId'', JStr (utf16 ''u1'')),
                            (utf16 ''caseName'', JStr (utf16 '' Case A'')),
                            (utf16 ''component'', JStr (utf16 ''Widget '')),
                            (utf16 ''quantity'', JNum (Num 2))]]\<rparr>) \<and>
   requests (snd (fetchUserHoldings NetworkFailure (utf16 ''  u1 '') \<lparr>cache = Map.empty, requests = []\<rparr>))
     = [GET [(utf16 ''action'', utf16 ''getUserHoldings''), (utf16 ''userId'', utf16 ''u1'')]]"
  using userId_trimmed_rest_verbatim
    [where userId = "utf16 ''  u1 ''" and caseName = "utf16 '' Case A''"
       and component = "utf16 ''Widget ''" and quantity = "Num 2" and shortest = "\<lambda>x. []"
       and rp = "Body \<lparr>data_success = Some True, data_error = None\<rparr>"
       and d = "\<lparr>data_success = Some True, data_error = None\<rparr>"
       and r = NetworkFailure and w = "\<lparr>cache = Map.empty, requests = []\<rparr>"]
  by (simp add: borrowComponent_def fetchUserHoldings_def validateNotEmpty_eq
        validatePositiveInt_def post_def get_def await_def async_def query_of_def
        is_high_surrogate_def is_low_surrogate_def invalidateCache_def trim_def
        is_white_space_def decimal.simps [of 2] utf16_def)

text \<open>
  C1. When the arguments pass validation and the response to the POST has no \<open>error\<close>
  field, the promise of \<open>borrowComponent\<close> is fulfilled with success and the message
  \<open>Successfully borrowed <quantity>x <component>!\<close>, the cache loses exactly the
  entries of \<open>getLiveStock\<close> and \<open>getComponents:<caseName>\<close>, and the next
  \<open>fetchLiveStock\<close> and the next \<open>fetchComponentsByCase caseName\<close>, whenever they run
  and whatever the backend answers, each send a request.
\<close>

theorem borrowComponent_success:
  assumes "validateNotEmpty userId (utf16 ''User ID'') = Inr ()"
    and "validateNotEmpty caseName (utf16 ''Case name'') = Inr ()"
    and "validateNotEmpty component (utf16 ''Component'') = Inr ()"
    and "validatePositiveInt quantity (utf16 ''Quantity'') = Inr ()"
    and "data_error d = None"
  shows "case borrowComponent shortest (Body d) userId caseName component quantity w of
           (res, w') \<Rightarrow>
             res = Inr (Fulfilled \<lparr>success = True,
                        message = utf16 ''Successfully borrowed '' @ Number_toString shortest quantity
                                  @ utf16 ''x '' @ component @ utf16 ''!''\<rparr>) \<and>
             cache w' = (cache w)(utf16 ''getLiveStock'' := None,
                                  utf16 ''getComponents:'' @ caseName := None) \<and>
             (\<forall>t1 t2 r. requests (snd (fetchLiveStock t1 t2 r w'))
                          = requests w' @ [GET [(utf16 ''action'', utf16 ''getLiveStock'')]]) \<and>
             (\<forall>t1 t2 r. requests (snd (fetchComponentsByCase t1 t2 r caseName w'))
                          = requests w' @ [GET [(utf16 ''action'', utf16 ''getComponents''),
                                                (utf16 ''case'', to_usv caseName)]])"
proof -
  let ?k1 = "utf16 ''getLiveStock''"
  let ?k2 = "utf16 ''getComponents:'' @ caseName"
  let ?w' = "\<lparr>cache = (cache w)(?k1 := None, ?k2 := None),
              requests = requests w @
                [POST [(utf16 ''action'', JStr (utf16 ''borrow'')),
                       (utf16 ''userId'', JStr (trim userId)),
                       (utf16 ''caseName'', JStr caseName),
                       (utf16 ''component'', JStr component),
                       (utf16 ''quantity'', JNum quantity)]]\<rparr>"
  have v: "trim userId \<noteq> []" "trim caseName \<noteq> []" "trim component \<noteq> []"
      "Number_isInteger quantity" "\<not> number_less quantity (Num 1)"
    using assms by (simp_all add: validateNotEmpty_ok_iff validatePositiveInt_ok_iff)
  have run: "borrowComponent shortest (Body d) userId caseName component quantity w =
     (Inr (Fulfilled \<lparr>success = True,
           message = utf16 ''Successfully borrowed '' @ Number_toString shortest quantity
                     @ utf16 ''x '' @ component @ utf16 ''!''\<rparr>), ?w')"
    using v assms(5) by (simp add: borrowComponent_accepted)
  have "cache ?w' ?k1 = None"
    by simp
  then have "requests (snd (cachedGet t1 t2 r ?k1 [(utf16 ''action'', utf16 ''getLiveStock'')] ?w'))
      = requests ?w' @ [GET (query_of [(utf16 ''action'', utf16 ''getLiveStock'')])]"
    for t1 t2 r
    by (rule cachedGet_absent)
  then have stock: "requests (snd (fetchLiveStock t1 t2 r ?w'))
      = requests ?w' @ [GET [(utf16 ''action'', utf16 ''getLiveStock'')]]" for t1 t2 r
    by (simp add: fetchLiveStock_cachedGet query_getLiveStock)
  have "cache ?w' ?k2 = None"
    by simp
  then have "requests (snd (cachedGet t1 t2 r ?k2
        [(utf16 ''action'', utf16 ''getComponents''), (utf16 ''case'', caseName)] ?w'))
      = requests ?w' @ [GET (query_of [(utf16 ''action'', utf16 ''getComponents''),
                                       (utf16 ''case'', caseName)])]"
    for t1 t2 r
    by (rule cachedGet_absent)
  then have comps: "requests (snd (fetchComponentsByCase t1 t2 r caseName ?w'))
      = requests ?w' @ [GET [(utf16 ''action'', utf16 ''getComponents''),
                             (utf16 ''case'', to_usv caseName)]]"
    for t1 t2 r
    using v(2) by (simp add: fetchComponentsByCase_cachedGet query_getComponents)
  show ?thesis
    unfolding run using stock comps by simp
qed

theorem borrowComponent_success_witness:
  "validateNotEmpty (utf16 ''u1'') (utf16 ''User ID'') = Inr () \<and>
   validateNotEmpty (utf16 ''Case A'') (utf16 ''Case name'') = Inr () \<and>
   validateNotEmpty (utf16 ''Widget'') (utf16 ''Component'') = Inr () \<and>
   validatePositiveInt (Num 2) (utf16 ''Quantity'') = Inr () \<and>
   data_error \<lparr>data_success = Some True, data_error = None\<rparr> = None \<and>
   (case borrowComponent (\<lambda>x. []) (Body \<lparr>data_success = Some True, data_error = None\<rparr>)
           (utf16 ''u1'') (utf16 ''Case A'') (utf16 ''Widget'') (Num 2)
           \<lparr>cache = Map.empty(utf16 ''getCases'' \<mapsto> \<lparr>data = JArr [], timestamp = 1\<rparr>,
                              utf16 ''getLiveStock'' \<mapsto> \<lparr>data = JArr [], timestamp = 2\<rparr>,
                              utf16 ''getComponents:Case A'' \<mapsto> \<lparr>data = JArr [], timestamp = 3\<rparr>),
             requests = []\<rparr> of
      (res, w') \<Rightarrow>
        res = Inr (Fulfilled \<lparr>success = True, message = utf16 ''Successfully borrowed 2x Widget!''\<rparr>) \<and>
        cache w' (utf16 ''getCases'') = Some \<lparr>data = JArr [], timestamp = 1\<rparr> \<and>
        cache w' (utf16 ''getLiveStock'') = None \<and>
        cache w' (utf16 ''getComponents:Case A'') = None \<and>
        length (requests (snd (fetchLiveStock 4 5 (Body (JArr [])) w'))) = 2 \<and>
        length (requests (snd (fetchComponentsByCase 4 5 (Body (JArr [])) (utf16 ''Case A'') w'))) = 2)"
  using borrowComponent_success
    [where userId = "utf16 ''u1''" and caseName = "utf16 ''Case A''"
       and component = "utf16 ''Widget''" and quantity = "Num 2" and shortest = "\<lambda>x. []"
       and d = "\<lparr>data_success = Some True, data_error = None\<rparr>"
       and w = "\<lparr>cache = Map.empty(utf16 ''getCases'' \<mapsto> \<lparr>data = JArr [], timestamp = 1\<rparr>,
                              utf16 ''getLiveStock'' \<mapsto> \<lparr>data = JArr [], timestamp = 2\<rparr>,
                              utf16 ''getComponents:Case A'' \<mapsto> \<lparr>data = JArr [], timestamp = 3\<rparr>),
                 requests = []\<rparr>"]
  by (simp add: borrowComponent_def fetchLiveStock_def fetchComponentsByCase_def cachedGet_def
        getCached_def get_def validateNotEmpty_eq await_def async_def
        validatePositiveInt_def post_def invalidateCache_def trim_def is_white_space_def
        decimal.simps [of 2] utf16_def)

text \<open>
  C2, as the claim states it, fails: \<open>if (data.error)\<close> is a truthiness test, so a
  response whose \<open>error\<close> field is the empty string is taken for a success, and the
  \<open>getLiveStock\<close> entry is invalidated.
\<close>

theorem error_field_empty_counterexample:
  "data_error \<lparr>data_success = None, data_error = Some []\<rparr> = Some [] \<and>
   fst (borrowComponent (\<lambda>x. []) (Body \<lparr>data_success = None, data_error = Some []\<rparr>)
          (utf16 ''u1'') (utf16 ''Case A'') (utf16 ''Widget'') (Num 2)
          \<lparr>cache = Map.empty(utf16 ''getLiveStock'' \<mapsto> \<lparr>data = JArr [], timestamp = 2\<rparr>),
            requests = []\<rparr>)
     = Inr (Fulfilled \<lparr>success = True, message = utf16 ''Successfully borrowed 2x Widget!''\<rparr>) \<and>
   cache (snd (borrowComponent (\<lambda>x. []) (Body \<lparr>data_success = None, data_error = Some []\<rparr>)
          (utf16 ''u1'') (utf16 ''Case A'') (utf16 ''Widget'') (Num 2)
          \<lparr>cache = Map.empty(utf16 ''getLiveStock'' \<mapsto> \<lparr>data = JArr [], timestamp = 2\<rparr>),
            requests = []\<rparr>)) (utf16 ''getLiveStock'') = None"
  by (simp add: borrowComponent_def validateNotEmpty_eq await_def async_def
        validatePositiveInt_def post_def invalidateCache_def trim_def is_white_space_def
        decimal.simps [of 2] utf16_def)

text \<open>
  C2, amended. When the arguments pass validation and the response carries an \<open>error\<close>
  field that is not the empty string, the promises of \<open>borrowComponent\<close> and
  \<open>returnComponent\<close> are fulfilled with \<open>success = False\<close> and that string as the
  message, not rejected, and the cache is exactly what it was.
\<close>

theorem backend_error_no_invalidation:
  assumes "validateNotEmpty userId (utf16 ''User ID'') = Inr ()"
    and "validateNotEmpty component (utf16 ''Component'') = Inr ()"
    and "validatePositiveInt quantity (utf16 ''Quantity'') = Inr ()"
    and "data_error d = Some e" and "e \<noteq> []"
  shows "(validateNotEmpty caseName (utf16 ''Case name'') = Inr () \<longrightarrow>
            fst (borrowComponent shortest (Body d) userId caseName component quantity w)
              = Inr (Fulfilled \<lparr>success = False, message = e\<rparr>) \<and>
            cache (snd (borrowComponent shortest (Body d) userId caseName component quantity w))
              = cache w) \<and>
         fst (returnComponent shortest (Body d) userId component quantity w)
           = Inr (Fulfilled \<lparr>success = False, message = e\<rparr>) \<and>
         cache (snd (returnComponent shortest (Body d) userId component quantity w)) = cache w"
proof -
  have v: "trim userId \<noteq> []" "trim component \<noteq> []"
      "Number_isInteger quantity" "\<not> number_less quantity (Num 1)"
    using assms by (simp_all add: validateNotEmpty_ok_iff validatePositiveInt_ok_iff)
  have "returnComponent shortest (Body d) userId component quantity w =
     (Inr (Fulfilled \<lparr>success = False, message = e\<rparr>),
      \<lparr>cache = cache w,
        requests = requests w @
          [POST [(utf16 ''action'', JStr (utf16 ''return'')),
                 (utf16 ''userId'', JStr (trim userId)),
                 (utf16 ''component'', JStr component),
                 (utf16 ''quantity'', JNum quantity)]]\<rparr>)"
    using v assms(4,5) by (rule returnComponent_rejected)
  moreover have "borrowComponent shortest (Body d) userId caseName component quantity w =
     (Inr (Fulfilled \<lparr>success = False, message = e\<rparr>),
      \<lparr>cache = cache w,
        requests = requests w @
          [POST [(utf16 ''action'', JStr (utf16 ''borrow'')),
                 (utf16 ''userId'', JStr (trim userId)),
                 (utf16 ''caseName'', JStr caseName),
                 (utf16 ''component'', JStr component),
                 (utf16 ''quantity'', JNum quantity)]]\<rparr>)"
    if "trim caseName \<noteq> []"
    using v(1) that v(2,3,4) assms(4,5) by (rule borrowComponent_rejected)
  ultimately show ?thesis
    by (simp add: validateNotEmpty_ok_iff)
qed

theorem backend_error_no_invalidation_witness:
  "validateNotEmpty (utf16 ''u1'') (utf16 ''User ID'') = Inr () \<and>
   validateNotEmpty (utf16 ''Case A'') (utf16 ''Case name'') = Inr () \<and>
   validateNotEmpty (utf16 ''Widget'') (utf16 ''Component'') = Inr () \<and>
   validatePositiveInt (Num 2) (utf16 ''Quantity'') = Inr () \<and>
   data_error \<lparr>data_success = None, data_error = Some (utf16 ''Not enough stock available'')\<rparr>
     = Some (utf16 ''Not enough stock available'') \<and>
   utf16 ''Not enough stock available'' \<noteq> [] \<and>
   borrowComponent (\<lambda>x. [])
       (Body \<lparr>data_success = None, data_error = Some (utf16 ''Not enough stock available'')\<rparr>)
       (utf16 ''u1'') (utf16 ''Case A'') (utf16 ''Widget'') (Num 2)
       \<lparr>cache = Map.empty(utf16 ''getLiveStock'' \<mapsto> \<lparr>data = JArr [], timestamp = 2\<rparr>),
         requests = []\<rparr>
     = (Inr (Fulfilled \<lparr>success = False, message = utf16 ''Not enough stock available''\<rparr>),
        \<lparr>cache = Map.empty(utf16 ''getLiveStock'' \<mapsto> \<lparr>data = JArr [], timestamp = 2\<rparr>),
          requests = [POST [(utf16 ''action'', JStr (utf16 ''borrow'')),
                            (utf16 ''userId'', JStr (utf16 ''u1'')),
                            (utf16 ''caseName'', JStr (utf16 ''Case A'')),
                            (utf16 ''component'', JStr (utf16 ''Widget'')),
                            (utf16 ''quantity'', JNum (Num 2))]]\<rparr>) \<and>
   fst (fetchLiveStock 3 3 NetworkFailure
          (snd (borrowComponent (\<lambda>x. [])
             (Body \<lparr>data_success = None, data_error = Some (utf16 ''Not enough stock available'')\<rparr>)
             (utf16 ''u1'') (utf16 ''Case A'') (utf16 ''Widget'') (Num 2)
             \<lparr>cache = Map.empty(utf16 ''getLiveStock'' \<mapsto> \<lparr>data = JArr [], timestamp = 2\<rparr>),
               requests = []\<rparr>)))
     = Inr (Fulfilled (JArr []))"
  using backend_error_no_invalidation
    [where userId = "utf16 ''u1''" and caseName = "utf16 ''Case A''"
       and component = "utf16 ''Widget''" and quantity = "Num 2" and shortest = "\<lambda>x. []"
       and d = "\<lparr>data_success = None, data_error = Some (utf16 ''Not enough stock available'')\<rparr>"
       and e = "utf16 ''Not enough stock available''"
       and w = "\<lparr>cache = Map.empty(utf16 ''getLiveStock'' \<mapsto> \<lparr>data = JArr [], timestamp = 2\<rparr>),
                 requests = []\<rparr>"]
  by (simp add: borrowComponent_def fetchLiveStock_def cachedGet_def getCached_def
        CACHE_TTL_MS_def validateNotEmpty_eq await_def async_def
        validatePositiveInt_def post_def trim_def is_white_space_def utf16_def)

end
